theory Spec2Isabelle
  imports Complex_Main "HOL-Library.AList" "HOL-Library.Char_ord"
    "HOL-Library.List_Lexorder" "HOL-Library.Product_Lexorder"
begin

section \<open>Values, errors and data frames\<close>

text \<open>
  The two notebooks are sequences of calls on pandas data frames. A cell of a frame is a
  number, a string or the missing-value marker NaN. Finite floats and integers are both
  numbers here: the notebooks only compare and sort them, which is exact.
\<close>

datatype cell = Num real | Str string | NaN

datatype error =
    NameError string
  | KeyError string
  | TypeError
  | ValueError
  | RuntimeError
  | AssertionError
  | AttributeError

text \<open>
  A data frame is held by column, as pandas holds it: the index labels of the rows, an
  optional name for the index, and the named columns in display order. A series is one
  column paired with the labels.
\<close>

record frame =
  index_name :: string
  index_labels :: "cell list"
  cols :: "(string \<times> cell list) list"

type_synonym series = "(cell \<times> cell) list"

definition columns :: "frame \<Rightarrow> string list" where
  "columns df = map fst (cols df)"

text \<open>
  What \<open>read_csv\<close> guarantees of a frame: column names are distinct and every column
  has one value per row.
\<close>

definition wf_frame :: "frame \<Rightarrow> bool" where
  "wf_frame df \<longleftrightarrow>
     distinct (columns df) \<and>
     list_all (\<lambda>c. length (snd c) = length (index_labels df)) (cols df)"

definition thenE :: "error + 'a \<Rightarrow> ('a \<Rightarrow> error + 'b) \<Rightarrow> error + 'b" where
  "thenE m f = (case m of Inl e \<Rightarrow> Inl e | Inr x \<Rightarrow> f x)"

text \<open>The labels \<open>0, 1, ..., n - 1\<close> that pandas gives a frame built without an index.\<close>

definition range_index :: "nat \<Rightarrow> cell list" where
  "range_index n = map (\<lambda>i. Num (of_nat i)) [0..<n]"

text \<open>\<open>pd.DataFrame()\<close>, \<open>pd.DataFrame({name: values})\<close> and the frame \<open>read_csv\<close> builds.\<close>

definition DataFrame_empty :: frame where
  "DataFrame_empty = \<lparr>index_name = [], index_labels = [], cols = []\<rparr>"

definition DataFrame_of_column :: "string \<Rightarrow> cell list \<Rightarrow> frame" where
  "DataFrame_of_column name vs =
     \<lparr>index_name = [], index_labels = range_index (length vs), cols = [(name, vs)]\<rparr>"

definition read_csv :: "nat \<Rightarrow> (string \<times> cell list) list \<Rightarrow> frame" where
  "read_csv n named_columns =
     \<lparr>index_name = [], index_labels = range_index n, cols = named_columns\<rparr>"

text \<open>\<open>df[name]\<close> and \<open>df[name].values\<close>; an unknown name raises KeyError.\<close>

definition getitem :: "frame \<Rightarrow> string \<Rightarrow> error + series" where
  "getitem df name =
     (case map_of (cols df) name of
        None \<Rightarrow> Inl (KeyError name)
      | Some vs \<Rightarrow> Inr (zip (index_labels df) vs))"

definition column_values :: "frame \<Rightarrow> string \<Rightarrow> error + cell list" where
  "column_values df name =
     (case map_of (cols df) name of
        None \<Rightarrow> Inl (KeyError name)
      | Some vs \<Rightarrow> Inr vs)"

text \<open>\<open>df.take(positions)\<close>: the rows at the given positions, in that order.\<close>

definition take_rows :: "frame \<Rightarrow> nat list \<Rightarrow> frame" where
  "take_rows df ps =
     df\<lparr>index_labels := map ((!) (index_labels df)) ps,
        cols := map (\<lambda>(n, c). (n, map ((!) c) ps)) (cols df)\<rparr>"

text \<open>
  \<open>series >= x\<close> for a float \<open>x\<close>: elementwise, NaN compares false, and a string
  against a float raises TypeError.
\<close>

fun cell_ge :: "cell \<Rightarrow> real \<Rightarrow> error + bool" where
  "cell_ge (Num a) x = Inr (a \<ge> x)"
| "cell_ge NaN x = Inr False"
| "cell_ge (Str s) x = Inl TypeError"

fun series_ge :: "series \<Rightarrow> real \<Rightarrow> error + (cell \<times> bool) list" where
  "series_ge [] x = Inr []"
| "series_ge ((l, v) # s) x =
     thenE (cell_ge v x) (\<lambda>b. thenE (series_ge s x) (\<lambda>bs. Inr ((l, b) # bs)))"

text \<open>
  \<open>df[msk]\<close> with a boolean series computed from the frame itself, so that it carries
  the frame's labels: the rows at the positions marked true.
\<close>

definition getitem_mask :: "frame \<Rightarrow> (cell \<times> bool) list \<Rightarrow> frame" where
  "getitem_mask df msk =
     take_rows df (filter (\<lambda>i. snd (msk ! i)) [0..<length (index_labels df)])"

definition len :: "frame \<Rightarrow> nat" where
  "len df = length (index_labels df)"

text \<open>
  \<open>df.sort_values(col)\<close>: ascending, missing values last; numbers by value, strings
  by code point. A column that mixes numbers and strings raises TypeError. The rows are
  taken in the order of the sorted keys, with their labels. Equal keys keep their order
  here; pandas leaves their order open, and the keys of the notebooks are unique.
\<close>

fun cell_rank :: "cell \<Rightarrow> nat \<times> real \<times> string" where
  "cell_rank (Num a) = (0, a, [])"
| "cell_rank (Str s) = (1, 0, s)"
| "cell_rank NaN = (2, 0, [])"

fun is_Num :: "cell \<Rightarrow> bool" where
  "is_Num (Num a) = True"
| "is_Num c = False"

fun is_Str :: "cell \<Rightarrow> bool" where
  "is_Str (Str s) = True"
| "is_Str c = False"

definition mixed :: "cell list \<Rightarrow> bool" where
  "mixed vs \<longleftrightarrow> list_ex is_Num vs \<and> list_ex is_Str vs"

definition argsort :: "cell list \<Rightarrow> nat list" where
  "argsort keys = sort_key (\<lambda>i. cell_rank (keys ! i)) [0..<length keys]"

definition sort_values :: "frame \<Rightarrow> string \<Rightarrow> error + frame" where
  "sort_values df col =
     (case map_of (cols df) col of
        None \<Rightarrow> Inl (KeyError col)
      | Some keys \<Rightarrow>
          if mixed keys then Inl TypeError else Inr (take_rows df (argsort keys)))"

text \<open>\<open>df.drop(name, axis=1)\<close>.\<close>

definition drop_column :: "frame \<Rightarrow> string \<Rightarrow> error + frame" where
  "drop_column df name =
     (if name \<in> set (columns df) then Inr (df\<lparr>cols := AList.delete name (cols df)\<rparr>)
      else Inl (KeyError name))"

text \<open>
  \<open>df[name] = values\<close>. A frame that has no rows yet takes its index from the first
  non-empty value assigned. An array is stored by position and must have one value per
  row. A series is stored by label: each row receives the value the series holds under
  the row's label, NaN when the series has no such label. An existing column is
  replaced, a new one goes last.
\<close>

definition adopt_index :: "frame \<Rightarrow> cell list \<Rightarrow> frame" where
  "adopt_index df labels =
     (if index_labels df = [] \<and> labels \<noteq> []
      then df\<lparr>index_labels := labels,
              cols := map (\<lambda>(n, c). (n, replicate (length labels) NaN)) (cols df)\<rparr>
      else df)"

definition setitem_array :: "frame \<Rightarrow> string \<Rightarrow> cell list \<Rightarrow> error + frame" where
  "setitem_array df name vs =
     (let df0 = adopt_index df (range_index (length vs)) in
      if length vs \<noteq> length (index_labels df0) then Inl ValueError
      else Inr (df0\<lparr>cols := AList.update name vs (cols df0)\<rparr>))"

definition reindex :: "series \<Rightarrow> cell list \<Rightarrow> cell list" where
  "reindex s labels = map (\<lambda>l. case map_of s l of Some v \<Rightarrow> v | None \<Rightarrow> NaN) labels"

definition setitem_series :: "frame \<Rightarrow> string \<Rightarrow> series \<Rightarrow> error + frame" where
  "setitem_series df name s =
     (let df0 = adopt_index df (map fst s) in
      if map fst s = index_labels df0
        then Inr (df0\<lparr>cols := AList.update name (map snd s) (cols df0)\<rparr>)
      else if \<not> distinct (map fst s) then Inl ValueError
      else Inr (df0\<lparr>cols := AList.update name (reindex s (index_labels df0)) (cols df0)\<rparr>))"

text \<open>\<open>df.set_index(name)\<close>: the column becomes the index and leaves the columns.\<close>

definition set_index :: "frame \<Rightarrow> string \<Rightarrow> error + frame" where
  "set_index df name =
     (case map_of (cols df) name of
        None \<Rightarrow> Inl (KeyError name)
      | Some keys \<Rightarrow>
          Inr \<lparr>index_name = name, index_labels = keys, cols = AList.delete name (cols df)\<rparr>)"

text \<open>
  \<open>df.to_csv(path)\<close> writes a header and one record per row, the index first;
  \<open>df.to_csv(path, index=None)\<close> leaves the index out.
\<close>

definition to_csv :: "frame \<Rightarrow> string list \<times> cell list list" where
  "to_csv df =
     (index_name df # columns df,
      map (\<lambda>i. index_labels df ! i # map (\<lambda>(n, c). c ! i) (cols df))
        [0..<length (index_labels df)])"

definition to_csv_no_index :: "frame \<Rightarrow> string list \<times> cell list list" where
  "to_csv_no_index df =
     (columns df,
      map (\<lambda>i. map (\<lambda>(n, c). c ! i) (cols df)) [0..<length (index_labels df)])"

section \<open>The custom aggregation primitive\<close>

text \<open>
  \<^verbatim>\<open>
  def count_long_dreaming_sessions(seconds_elapsed):
      df = pd.DataFrame({'seconds_elapsed': seconds_elapsed})
      return len(df[df['seconds_elapsed'] >= 3600.0])
  \<close>
\<close>

definition count_long_dreaming_sessions :: "cell list \<Rightarrow> error + nat" where
  "count_long_dreaming_sessions seconds_elapsed =
     (let df = DataFrame_of_column ''seconds_elapsed'' seconds_elapsed in
      thenE (getitem df ''seconds_elapsed'') (\<lambda>s.
      thenE (series_ge s 3600) (\<lambda>msk.
      Inr (len (getitem_mask df msk)))))"

section \<open>Names bound by the notebooks\<close>

text \<open>
  A notebook runs in one kernel whose global names persist from cell to cell. A statement
  is kept as the global names it reads, in evaluation order, and the names it binds. A
  read of an unbound name raises NameError and ends the cell; what the cell bound before
  stays bound. Calls into the libraries are taken to return.
\<close>

datatype stmt = Stmt (reads: "string list") (binds: "string list")

text \<open>The Python builtins the notebooks refer to.\<close>

definition builtins :: "string list" where
  "builtins = [''print'', ''len'', ''range'']"

fun run_stmts :: "string list \<Rightarrow> stmt list \<Rightarrow> string list \<times> error option" where
  "run_stmts env [] = (env, None)"
| "run_stmts env (s # ss) =
     (case find (\<lambda>n. n \<notin> set env) (reads s) of
        Some n \<Rightarrow> (env, Some (NameError n))
      | None \<Rightarrow> run_stmts (binds s @ env) ss)"

text \<open>Cells run one after another, in any order the user picks; the kernel survives errors.\<close>

fun run_cells :: "string list \<Rightarrow> stmt list list \<Rightarrow> string list" where
  "run_cells env [] = env"
| "run_cells env (c # cs) = run_cells (fst (run_stmts env c)) cs"

subsection \<open>Notebook (4): model selection\<close>

definition nb4_setup :: "stmt list" where
  "nb4_setup =
     [Stmt [] [''pd''], Stmt [] [''h2o''], Stmt [] [''H2OAutoML''],
      Stmt [''h2o''] [], Stmt [] [''SEED'']]"

definition nb4_filepaths :: "stmt list" where
  "nb4_filepaths = [Stmt [] [''training_filepath''], Stmt [] [''testing_filepath'']]"

definition nb4_read_train :: "stmt list" where
  "nb4_read_train =
     [Stmt [''h2o'', ''training_filepath''] [''X_train''], Stmt [''X_train''] []]"

definition nb4_select_variables :: "stmt list" where
  "nb4_select_variables =
     [Stmt [''X_train''] [''train_variables'', ''response_variable''],
      Stmt [''response_variable''] [''unrelated_variables''],
      Stmt [''unrelated_variables''] [''variable''],
      Stmt [''train_variables'', ''variable''] [],
      Stmt [''X_train'', ''response_variable'', ''X_train'', ''response_variable''] []]"

definition nb4_automl :: "stmt list" where
  "nb4_automl = [Stmt [''H2OAutoML'', ''SEED''] [''aml'']]"

definition nb4_train :: "stmt list" where
  "nb4_train = [Stmt [''aml'', ''train_variables'', ''response_variable'', ''X_train''] []]"

definition nb4_leaderboard :: "stmt list" where
  "nb4_leaderboard = [Stmt [''aml''] [''lb''], Stmt [''print'', ''lb'', ''lb''] []]"

definition nb4_save_model :: "stmt list" where
  "nb4_save_model = [Stmt [''h2o'', ''aml''] [''model_path'']]"

definition nb4_read_test :: "stmt list" where
  "nb4_read_test =
     [Stmt [''h2o'', ''testing_filepath''] [''X_test''], Stmt [''X_test''] []]"

definition nb4_load_model :: "stmt list" where
  "nb4_load_model = [Stmt [''h2o'', ''model_path''] [''model'']]"

text \<open>\<^verbatim>\<open>predictions = model.predict(test)\<close>\<close>

definition nb4_get_predictions :: "stmt list" where
  "nb4_get_predictions = [Stmt [''model'', ''test''] [''predictions'']]"

definition nb4_submission :: "stmt list" where
  "nb4_submission =
     [Stmt [''pd''] [''answers''],
      Stmt [''pd'', ''answers''] [],
      Stmt [''predictions'', ''answers''] [],
      Stmt [''answers''] [],
      Stmt [''answers''] []]"

text \<open>The code cells before the prediction cell, in the order of the notebook.\<close>

definition nb4_before_predictions :: "stmt list list" where
  "nb4_before_predictions =
     [nb4_setup, nb4_filepaths, nb4_read_train, nb4_select_variables, nb4_automl,
      nb4_train, nb4_leaderboard, nb4_save_model, nb4_read_test, nb4_load_model]"

definition notebook4 :: "stmt list list" where
  "notebook4 = nb4_before_predictions @ [nb4_get_predictions, nb4_submission]"

text \<open>
  The invariant behind the prediction cell: neither \<open>test\<close> nor \<open>predictions\<close> is
  bound, and a statement keeps it when it does not bind \<open>test\<close> and binds
  \<open>predictions\<close> only after reading \<open>test\<close>.
\<close>

definition no_predictions :: "string list \<Rightarrow> bool" where
  "no_predictions env \<longleftrightarrow> ''test'' \<notin> set env \<and> ''predictions'' \<notin> set env"

definition keeps_no_predictions :: "stmt \<Rightarrow> bool" where
  "keeps_no_predictions s \<longleftrightarrow>
     ''test'' \<notin> set (binds s) \<and>
     (''predictions'' \<in> set (binds s) \<longrightarrow> ''test'' \<in> set (reads s))"

subsection \<open>Notebook (2): feature engineering\<close>

definition nb2_imports :: "stmt list" where
  "nb2_imports = [Stmt [] [''pd''], Stmt [] [''ft''], Stmt [] [''unknown_to_nan'']]"

definition nb2_read_data :: "stmt list" where
  "nb2_read_data =
     [Stmt [] [''date_variables''],
      Stmt [''pd'', ''date_variables''] [''users_df''],
      Stmt [''pd'', ''date_variables''] [''users_test_df''],
      Stmt [''pd''] [''buckets_df''],
      Stmt [''pd''] [''sessions_df''],
      Stmt [''users_df''] [],
      Stmt [''users_test_df''] [],
      Stmt [''users_df''] [''targets''],
      Stmt [''users_df''] []]"

definition nb2_entity_sets :: "stmt list" where
  "nb2_entity_sets =
     [Stmt [''ft''] [''es''],
      Stmt [''es'', ''users_df'', ''ft''] [''es''],
      Stmt [''es'', ''sessions_df''] [''es''],
      Stmt [''es'', ''buckets_df''] [''es''],
      Stmt [''print'', ''es''] [],
      Stmt [''print'', ''es''] [],
      Stmt [''ft''] [''es_test''],
      Stmt [''es_test'', ''users_test_df'', ''ft''] [''es_test''],
      Stmt [''es_test'', ''sessions_df''] [''es_test''],
      Stmt [''es_test'', ''buckets_df''] [''es_test''],
      Stmt [''print'', ''es_test''] [],
      Stmt [''print'', ''es_test''] []]"

definition nb2_relationships :: "stmt list" where
  "nb2_relationships =
     [Stmt [''ft'', ''es'', ''es''] [''id_to_id''],
      Stmt [''ft'', ''es'', ''es''] [''bucket_to_bucket''],
      Stmt [''es'', ''id_to_id'', ''bucket_to_bucket''] [],
      Stmt [''ft'', ''es_test'', ''es_test''] [''id_to_id_test''],
      Stmt [''ft'', ''es_test'', ''es_test''] [''bucket_to_bucket_test''],
      Stmt [''es_test'', ''id_to_id_test'', ''bucket_to_bucket_test''] [],
      Stmt [''print'', ''es''] [],
      Stmt [''print'', ''es_test''] []]"

text \<open>
  The cell of the custom primitives. A \<^verbatim>\<open>def\<close> binds the function's name and reads
  nothing: the names in its body are looked up when it is called.
\<close>

definition nb2_custom_primitives :: "stmt list" where
  "nb2_custom_primitives =
     [Stmt [] [''make_agg_primitive'', ''make_trans_primitive''],
      Stmt [] [''Text'', ''Numeric'', ''Categorical''],
      Stmt [] [''anger_words_count''],
      Stmt [''make_trans_primitive'', ''anger_words_count'', ''Text'', ''Numeric'']
        [''AngerWordsCount''],
      Stmt [] [''count_long_dreaming_sessions''],
      Stmt [''make_agg_primitive'', ''count_long_dreaming_sessions'', ''Numeric'', ''Numeric'']
        [''CountLongDreamingSessions''],
      Stmt [''es''] [],
      Stmt [''ft'', ''es'', ''CountLongDreamingSessions'', ''CountLongDreamingSessions'']
        [''feature_definitions''],
      Stmt [''print'', ''feature_definitions''] []]"

definition nb2_dfs :: "stmt list" where
  "nb2_dfs =
     [Stmt [] [''aggregations''],
      Stmt [] [''transformations''],
      Stmt [''ft'', ''es'', ''aggregations'', ''transformations'']
        [''feature_matrix'', ''feature_definitions''],
      Stmt [''print'', ''feature_definitions''] []]"

definition nb2_replay :: "stmt list" where
  "nb2_replay = [Stmt [''ft'', ''feature_definitions'', ''es_test''] [''feature_matrix_test'']]"

definition nb2_unknowns :: "stmt list" where
  "nb2_unknowns =
     [Stmt [''unknown_to_nan'', ''feature_matrix''] [''feature_matrix''],
      Stmt [''unknown_to_nan'', ''feature_matrix_test''] [''feature_matrix_test'']]"

definition nb2_save :: "stmt list" where
  "nb2_save =
     [Stmt [''targets'', ''feature_matrix''] [],
      Stmt [''feature_matrix''] [],
      Stmt [''feature_matrix_test''] []]"

definition notebook2 :: "stmt list list" where
  "notebook2 =
     [nb2_imports, nb2_read_data, nb2_entity_sets, nb2_relationships,
      nb2_custom_primitives, nb2_dfs, nb2_replay, nb2_unknowns, nb2_save]"

section \<open>The custom transform primitive\<close>

text \<open>
  \<open>str.lower()\<close>. A character stands for a code point below 256. The upper-case letters
  among these are A to Z and U+00C0 to U+00DE without the multiplication sign U+00D7;
  the lower-case form of each lies 32 code points above it. Every other character is
  kept as it is.
\<close>

definition upper_case :: string where
  "upper_case =
     ''ABCDEFGHIJKLMNOPQRSTUVWXYZ'' @
     [CHR 0xC0, CHR 0xC1, CHR 0xC2, CHR 0xC3, CHR 0xC4, CHR 0xC5, CHR 0xC6, CHR 0xC7,
      CHR 0xC8, CHR 0xC9, CHR 0xCA, CHR 0xCB, CHR 0xCC, CHR 0xCD, CHR 0xCE, CHR 0xCF,
      CHR 0xD0, CHR 0xD1, CHR 0xD2, CHR 0xD3, CHR 0xD4, CHR 0xD5, CHR 0xD6, CHR 0xD8,
      CHR 0xD9, CHR 0xDA, CHR 0xDB, CHR 0xDC, CHR 0xDD, CHR 0xDE]"

definition lower_case :: string where
  "lower_case =
     ''abcdefghijklmnopqrstuvwxyz'' @
     [CHR 0xE0, CHR 0xE1, CHR 0xE2, CHR 0xE3, CHR 0xE4, CHR 0xE5, CHR 0xE6, CHR 0xE7,
      CHR 0xE8, CHR 0xE9, CHR 0xEA, CHR 0xEB, CHR 0xEC, CHR 0xED, CHR 0xEE, CHR 0xEF,
      CHR 0xF0, CHR 0xF1, CHR 0xF2, CHR 0xF3, CHR 0xF4, CHR 0xF5, CHR 0xF6, CHR 0xF8,
      CHR 0xF9, CHR 0xFA, CHR 0xFB, CHR 0xFC, CHR 0xFD, CHR 0xFE]"

definition lower_char :: "char \<Rightarrow> char" where
  "lower_char c =
     (case map_of (zip upper_case lower_case) c of
        Some d \<Rightarrow> d
      | None \<Rightarrow> c)"

definition lower :: "string \<Rightarrow> string" where
  "lower s = map lower_char s"

text \<open>
  \<open>s.count(sub)\<close>: the occurrences of \<open>sub\<close> in \<open>s\<close> found from left to right without
  overlap. After a match at a position the next \<open>length sub - 1\<close> positions are skipped.
  The empty string occurs \<open>len(s) + 1\<close> times.
\<close>

fun count_scan :: "string \<Rightarrow> nat \<Rightarrow> string \<Rightarrow> nat" where
  "count_scan sub skip [] = 0"
| "count_scan sub skip (c # cs) =
     (if 0 < skip then count_scan sub (skip - 1) cs
      else if take (length sub) (c # cs) = sub
        then Suc (count_scan sub (length sub - 1) cs)
      else count_scan sub 0 cs)"

definition str_count :: "string \<Rightarrow> string \<Rightarrow> nat" where
  "str_count s sub = (if sub = [] then length s + 1 else count_scan sub 0 s)"

text \<open>
  \<^verbatim>\<open>
  def anger_words_count(column, anger_words=['hate', 'furious', 'terrible',
                                             'disgusting', 'shameful']):
      counts = [np.sum([review.lower().count(anger_word) for anger_word in anger_words])
                for review in column]
      return counts
  \<close>
  The body reads the global name \<open>np\<close> once per review, before it counts; \<open>globals\<close> are
  the names bound in the kernel at the call.
\<close>

definition anger_words_default :: "string list" where
  "anger_words_default = [''hate'', ''furious'', ''terrible'', ''disgusting'', ''shameful'']"

definition review_count :: "string list \<Rightarrow> string \<Rightarrow> nat" where
  "review_count anger_words review =
     sum_list (map (\<lambda>anger_word. str_count (lower review) anger_word) anger_words)"

fun anger_words_count :: "string list \<Rightarrow> string list \<Rightarrow> string list \<Rightarrow> error + nat list" where
  "anger_words_count globals [] anger_words = Inr []"
| "anger_words_count globals (review # column) anger_words =
     (if ''np'' \<notin> set globals then Inl (NameError ''np'')
      else thenE (anger_words_count globals column anger_words)
             (\<lambda>counts. Inr (review_count anger_words review # counts)))"

section \<open>The submission writer\<close>

text \<open>
  \<^verbatim>\<open>
  answers = pd.DataFrame()
  answers['id'] = pd.read_csv('(0)data/test_users.csv').sort_values('id')['id']
  answers['country'] = predictions.as_data_frame()['predict']
  answers.set_index('id', inplace=True)
  answers.to_csv('answers.csv')
  \<close>
  \<open>raw_test_users\<close> is the frame read from the raw test-users file and \<open>predictions_df\<close>
  the frame \<open>predictions.as_data_frame()\<close> returns: both are labelled by position.
\<close>

definition submission :: "frame \<Rightarrow> frame \<Rightarrow> error + string list \<times> cell list list" where
  "submission raw_test_users predictions_df =
     (let answers = DataFrame_empty in
      thenE (sort_values raw_test_users ''id'') (\<lambda>sorted_users.
      thenE (getitem sorted_users ''id'') (\<lambda>ids.
      thenE (setitem_series answers ''id'' ids) (\<lambda>answers.
      thenE (getitem predictions_df ''predict'') (\<lambda>predict.
      thenE (setitem_series answers ''country'' predict) (\<lambda>answers.
      thenE (set_index answers ''id'') (\<lambda>answers.
      Inr (to_csv answers))))))))"

section \<open>Entity sets\<close>

text \<open>
  An entity set of featuretools: entities by name, each a frame with the name of its
  index variable, the declared relationships, and the interesting values set on
  variables.
\<close>

record entity =
  entity_df :: frame
  entity_index :: string

record relationship =
  parent_entity :: string
  parent_variable :: string
  child_entity :: string
  child_variable :: string

record entityset =
  es_id :: string
  entities :: "string \<rightharpoonup> entity"
  relationships :: "relationship list"
  interesting_values :: "(string \<times> string \<times> string list) list"

definition EntitySet :: "string \<Rightarrow> entityset" where
  "EntitySet name =
     \<lparr>es_id = name, entities = Map.empty, relationships = [], interesting_values = []\<rparr>"

text \<open>\<open>df.insert(0, name, range(0, len(df)))\<close>: a new first column of row positions.\<close>

definition insert_range_column :: "frame \<Rightarrow> string \<Rightarrow> frame" where
  "insert_range_column df name =
     df\<lparr>cols := (name, range_index (length (index_labels df))) # cols df\<rparr>"

text \<open>
  The frame an entity is made of: the caller's frame when it has the index column, and
  otherwise that frame with a new column of the row positions under the index name.
\<close>

definition with_index :: "frame \<Rightarrow> string \<Rightarrow> frame" where
  "with_index df index_col =
     (if index_col \<in> set (columns df) then df else insert_range_column df index_col)"

text \<open>
  \<open>es.entity_from_dataframe(entity_id, dataframe, index, make_index)\<close>, as the
  notebook describes and uses it. With \<open>make_index\<close> the index column must not exist
  yet (RuntimeError otherwise). An index name that is not a column gets a new column of
  the row positions, which becomes the index. The index column must be unique: the
  library asserts it. The entity keeps its own frame, labelled by the index column.
  The library version of the notebook inserts the new column into the caller's frame;
  \<open>in_place\<close> says whether it does, and the frame the caller holds afterwards is
  returned with the entity set.
\<close>

definition entity_from_dataframe ::
  "bool \<Rightarrow> entityset \<Rightarrow> string \<Rightarrow> frame \<Rightarrow> string \<Rightarrow> bool \<Rightarrow> error + entityset \<times> frame" where
  "entity_from_dataframe in_place es entity_id dataframe index_col make_index =
     (if make_index \<and> index_col \<in> set (columns dataframe) then Inl RuntimeError
      else
        let df = with_index dataframe index_col
        in thenE (column_values df index_col) (\<lambda>keys.
             if \<not> distinct keys then Inl AssertionError
             else Inr (es\<lparr>entities := (entities es)(entity_id \<mapsto>
                            \<lparr>entity_df = df\<lparr>index_labels := keys\<rparr>,
                             entity_index = index_col\<rparr>)\<rparr>,
                       if in_place then df else dataframe)))"

text \<open>
  \<open>es[entity_id][variable_id]\<close>: KeyError for an unknown entity or variable. The
  variable knows its entity, and with it the name of the entity's index.
\<close>

record variable_ref =
  var_entity :: string
  var_id :: string
  var_entity_index :: string

definition variable :: "entityset \<Rightarrow> string \<Rightarrow> string \<Rightarrow> error + variable_ref" where
  "variable es entity_id variable_id =
     (case entities es entity_id of
        None \<Rightarrow> Inl (KeyError entity_id)
      | Some e \<Rightarrow>
          if variable_id \<in> set (columns (entity_df e))
          then Inr \<lparr>var_entity = entity_id, var_id = variable_id,
                    var_entity_index = entity_index e\<rparr>
          else Inl (KeyError variable_id))"

text \<open>
  \<open>ft.Relationship(parent_variable, child_variable)\<close>: the parent comes first, and it
  must be the index of its entity; the library raises AttributeError ("Parent variable
  ... is not the index of entity ...") otherwise.
\<close>

definition Relationship :: "variable_ref \<Rightarrow> variable_ref \<Rightarrow> error + relationship" where
  "Relationship parent child =
     (if var_id parent \<noteq> var_entity_index parent then Inl AttributeError
      else Inr \<lparr>parent_entity = var_entity parent, parent_variable = var_id parent,
                child_entity = var_entity child, child_variable = var_id child\<rparr>)"

text \<open>
  \<open>ft.Relationship(es[p_entity][p_variable], es[c_entity][c_variable])\<close>, the form of
  every declaration in the notebook: the two variables are looked up, parent first, and
  the relationship is made of them.
\<close>

definition declare_relationship ::
  "entityset \<Rightarrow> string \<times> string \<Rightarrow> string \<times> string \<Rightarrow> error + relationship" where
  "declare_relationship es parent child =
     thenE (variable es (fst parent) (snd parent)) (\<lambda>parent_variable.
     thenE (variable es (fst child) (snd child)) (\<lambda>child_variable.
     Relationship parent_variable child_variable))"

text \<open>\<open>es.add_relationships(rs)\<close>: each in turn; one already declared is skipped.\<close>

fun add_relationships :: "entityset \<Rightarrow> relationship list \<Rightarrow> entityset" where
  "add_relationships es [] = es"
| "add_relationships es (r # rs) =
     add_relationships
       (if r \<in> set (relationships es) then es
        else es\<lparr>relationships := relationships es @ [r]\<rparr>) rs"

definition set_interesting_values ::
  "entityset \<Rightarrow> string \<Rightarrow> string \<Rightarrow> string list \<Rightarrow> error + entityset" where
  "set_interesting_values es entity_id variable_id vs =
     thenE (variable es entity_id variable_id) (\<lambda>v.
       Inr (es\<lparr>interesting_values := (entity_id, variable_id, vs) # interesting_values es\<rparr>))"

section \<open>Post-processing\<close>

text \<open>
  Modelled from the spec: \<open>unknown_to_nan\<close> is imported from the module \<open>utils\<close> of
  the repository, which is not among the source files. The spec has it scan the
  materialized matrix and replace every "unknown" sentinel with the missing-value
  marker, changing nothing else and filling nothing in.
\<close>

definition unknown_to_nan_cell :: "cell \<Rightarrow> cell" where
  "unknown_to_nan_cell c = (if c = Str ''unknown'' then NaN else c)"

text \<open>
  Modelled from the spec: the missing function \<open>unknown_to_nan\<close> itself, applied to
  every cell of every column; labels, column names and column order stay.
\<close>

definition unknown_to_nan :: "frame \<Rightarrow> frame" where
  "unknown_to_nan df = df\<lparr>cols := map (\<lambda>(n, c). (n, map unknown_to_nan_cell c)) (cols df)\<rparr>"

section \<open>Notebook (2): the feature-engineering run\<close>

text \<open>
  \<^verbatim>\<open>
  users_df.sort_values('id', inplace=True)
  users_test_df.sort_values('id', inplace=True)
  targets = users_df['country_destination'].values
  users_df.drop('country_destination', axis=1, inplace=True)
  \<close>
\<close>

definition read_data :: "frame \<Rightarrow> frame \<Rightarrow> error + frame \<times> frame \<times> cell list" where
  "read_data users_csv users_test_csv =
     thenE (sort_values users_csv ''id'') (\<lambda>users_df.
     thenE (sort_values users_test_csv ''id'') (\<lambda>users_test_df.
     thenE (column_values users_df ''country_destination'') (\<lambda>targets.
     thenE (drop_column users_df ''country_destination'') (\<lambda>users_df.
     Inr (users_df, users_test_df, targets)))))"

text \<open>
  The training and the test entity set. Both take the same sessions and buckets frames;
  only the training call for the sessions passes \<open>make_index=True\<close>. The variable types
  passed for the users do not touch the data and are left out.
\<close>

definition entity_sets ::
  "bool \<Rightarrow> frame \<Rightarrow> frame \<Rightarrow> frame \<Rightarrow> frame \<Rightarrow> error + entityset \<times> entityset" where
  "entity_sets in_place users_df users_test_df sessions_df buckets_df =
     thenE (entity_from_dataframe in_place (EntitySet ''bookings'')
              ''users'' users_df ''id'' False) (\<lambda>(es, users_df).
     thenE (entity_from_dataframe in_place es
              ''sessions'' sessions_df ''data_id'' True) (\<lambda>(es, sessions_df).
     thenE (entity_from_dataframe in_place es
              ''buckets'' buckets_df ''bucket_id'' False) (\<lambda>(es, buckets_df).
     thenE (entity_from_dataframe in_place (EntitySet ''bookings_test'')
              ''users'' users_test_df ''id'' False) (\<lambda>(es_test, users_test_df).
     thenE (entity_from_dataframe in_place es_test
              ''sessions'' sessions_df ''data_id'' False) (\<lambda>(es_test, sessions_df).
     thenE (entity_from_dataframe in_place es_test
              ''buckets'' buckets_df ''bucket_id'' False) (\<lambda>(es_test, buckets_df).
     Inr (es, es_test)))))))"

text \<open>
  \<^verbatim>\<open>
  id_to_id = ft.Relationship(es['users']['id'], es['sessions']['user_id'])
  bucket_to_bucket = ft.Relationship(es['buckets']['bucket_id'],
                                     es['users']['age_gender_bucket'])
  es.add_relationships([id_to_id, bucket_to_bucket])
  \<close>
  and the same for the test entity set.
\<close>

definition declare_relationships :: "entityset \<Rightarrow> error + entityset" where
  "declare_relationships es =
     thenE (declare_relationship es (''users'', ''id'') (''sessions'', ''user_id''))
       (\<lambda>id_to_id.
     thenE (declare_relationship es (''buckets'', ''bucket_id'')
              (''users'', ''age_gender_bucket'')) (\<lambda>bucket_to_bucket.
     Inr (add_relationships es [id_to_id, bucket_to_bucket])))"

text \<open>
  The cells up to the synthesis: loading, the two entity sets, the relationships of
  both, and the interesting values set on the training entity set. The features-only
  call in the cell of the custom primitives binds a name that the synthesis cell binds
  again, and is left out.
\<close>

definition assemble ::
  "bool \<Rightarrow> frame \<Rightarrow> frame \<Rightarrow> frame \<Rightarrow> frame \<Rightarrow> error + entityset \<times> entityset \<times> cell list" where
  "assemble in_place users_csv users_test_csv buckets_df sessions_df =
     thenE (read_data users_csv users_test_csv) (\<lambda>(users_df, users_test_df, targets).
     thenE (entity_sets in_place users_df users_test_df sessions_df buckets_df)
       (\<lambda>(es, es_test).
     thenE (declare_relationships es) (\<lambda>es.
     thenE (declare_relationships es_test) (\<lambda>es_test.
     thenE (set_interesting_values es ''sessions'' ''action_detail''
              [''view_search_results'', ''wishlist_content_update'']) (\<lambda>es.
     Inr (es, es_test, targets))))))"

text \<open>
  Deep feature synthesis is featuretools' work. What the notebook sees of it:
  \<open>ft.dfs(entityset=es, target_entity='users', ...)\<close> builds the feature definitions
  from the entity set, computes the feature matrix from them with
  \<open>ft.calculate_feature_matrix\<close> and returns both; the notebook then replays the
  definitions on the test entity set. A feature matrix has one row per instance of the
  target entity, labelled by the entity's index, and one column per feature. How the
  definitions are built (\<open>build_features\<close>) and what values they take on an entity set
  (\<open>evaluate\<close>) are left open. So is the order of the rows: they come in the order of
  the entity's frame, or sorted by key as the notebook has it; \<open>by_key\<close> says which.
\<close>

definition instance_ids :: "bool \<Rightarrow> entity \<Rightarrow> cell list" where
  "instance_ids by_key e =
     (if by_key then sort_key cell_rank (index_labels (entity_df e))
      else index_labels (entity_df e))"

definition calculate_feature_matrix ::
  "bool \<Rightarrow> ('d \<Rightarrow> entityset \<Rightarrow> (string \<times> cell list) list) \<Rightarrow> 'd \<Rightarrow> entityset
     \<Rightarrow> error + frame" where
  "calculate_feature_matrix by_key evaluate features es =
     (case entities es ''users'' of
        None \<Rightarrow> Inl (KeyError ''users'')
      | Some e \<Rightarrow>
          Inr \<lparr>index_name = entity_index e,
               index_labels = instance_ids by_key e,
               cols = evaluate features es\<rparr>)"

definition dfs ::
  "bool \<Rightarrow> (entityset \<Rightarrow> 'd) \<Rightarrow> ('d \<Rightarrow> entityset \<Rightarrow> (string \<times> cell list) list) \<Rightarrow> entityset
     \<Rightarrow> error + frame \<times> 'd" where
  "dfs by_key build_features evaluate es =
     (let features = build_features es in
      thenE (calculate_feature_matrix by_key evaluate features es) (\<lambda>feature_matrix.
      Inr (feature_matrix, features)))"

text \<open>
  The whole run: synthesis on the training entity set, replay on the test entity set,
  post-processing of both matrices, and the labels written back onto the training
  matrix. The result is the pair of matrices the last cell saves with
  \<open>to_csv(..., index=None)\<close>.
  \<^verbatim>\<open>
  feature_matrix, feature_definitions = ft.dfs(entityset=es, target_entity='users', ...)
  feature_matrix_test = ft.calculate_feature_matrix(features=feature_definitions,
                                                    entityset=es_test, verbose=True)
  feature_matrix = unknown_to_nan(df=feature_matrix)
  feature_matrix_test = unknown_to_nan(df=feature_matrix_test)
  feature_matrix['country_destination'] = targets
  \<close>
\<close>

definition feature_engineering ::
  "bool \<Rightarrow> bool \<Rightarrow> (entityset \<Rightarrow> 'd) \<Rightarrow> ('d \<Rightarrow> entityset \<Rightarrow> (string \<times> cell list) list)
     \<Rightarrow> frame \<Rightarrow> frame \<Rightarrow> frame \<Rightarrow> frame \<Rightarrow> error + frame \<times> frame" where
  "feature_engineering in_place by_key build_features evaluate
       users_csv users_test_csv buckets_df sessions_df =
     thenE (assemble in_place users_csv users_test_csv buckets_df sessions_df)
       (\<lambda>(es, es_test, targets).
     thenE (dfs by_key build_features evaluate es)
       (\<lambda>(feature_matrix, feature_definitions).
     thenE (calculate_feature_matrix by_key evaluate feature_definitions es_test)
       (\<lambda>feature_matrix_test.
     (let feature_matrix = unknown_to_nan feature_matrix;
          feature_matrix_test = unknown_to_nan feature_matrix_test
      in thenE (setitem_array feature_matrix ''country_destination'' targets)
           (\<lambda>feature_matrix. Inr (feature_matrix, feature_matrix_test))))))"

section \<open>Notions the properties are stated with\<close>

text \<open>A relationship's parent column holds no value twice.\<close>

definition parent_unique :: "entityset \<Rightarrow> relationship \<Rightarrow> bool" where
  "parent_unique es r \<longleftrightarrow>
     (case entities es (parent_entity r) of
        None \<Rightarrow> False
      | Some e \<Rightarrow>
          (case column_values (entity_df e) (parent_variable r) of
             Inl err \<Rightarrow> False
           | Inr keys \<Rightarrow> distinct keys))"

text \<open>A column of cells that grows strictly from row to row.\<close>

definition strictly_increasing :: "cell list \<Rightarrow> bool" where
  "strictly_increasing vs \<longleftrightarrow> sorted_wrt (\<lambda>a b. cell_rank a < cell_rank b) vs"

text \<open>An entity of the set is indexed by a column that holds the given keys, all different.\<close>

definition keyed :: "entityset \<Rightarrow> string \<Rightarrow> string \<Rightarrow> cell list \<Rightarrow> bool" where
  "keyed es entity_id index_col keys \<longleftrightarrow>
     (case entities es entity_id of
        None \<Rightarrow> False
      | Some e \<Rightarrow>
          entity_index e = index_col \<and> index_labels (entity_df e) = keys \<and>
          column_values (entity_df e) index_col = Inr keys \<and> distinct keys)"

text \<open>The two relationships the notebook declares, parent first.\<close>

definition id_to_id :: relationship where
  "id_to_id =
     \<lparr>parent_entity = ''users'', parent_variable = ''id'',
      child_entity = ''sessions'', child_variable = ''user_id''\<rparr>"

definition bucket_to_bucket :: relationship where
  "bucket_to_bucket =
     \<lparr>parent_entity = ''buckets'', parent_variable = ''bucket_id'',
      child_entity = ''users'', child_variable = ''age_gender_bucket''\<rparr>"



section \<open>A small instance\<close>

text \<open>
  Two training users listed out of key order, one test user, one bucket and two sessions
  of the first user by key, with a single feature: how many sessions each user has.
\<close>

definition example_users :: frame where
  "example_users =
     read_csv 2
       [(''id'', [Str ''u2'', Str ''u1'']),
        (''age_gender_bucket'', [Str ''b1'', Str ''b1'']),
        (''country_destination'', [Str ''FR'', Str ''US''])]"

definition example_test_users :: frame where
  "example_test_users =
     read_csv 1 [(''id'', [Str ''t1'']), (''age_gender_bucket'', [Str ''b1''])]"

definition example_buckets :: frame where
  "example_buckets = read_csv 1 [(''bucket_id'', [Str ''b1''])]"

definition example_sessions :: frame where
  "example_sessions =
     read_csv 2
       [(''user_id'', [Str ''u1'', Str ''u1'']),
        (''action_detail'', [Str ''view_search_results'', NaN]),
        (''secs_elapsed'', [Num 4000, Num 10])]"

definition session_users :: "entityset \<Rightarrow> cell list" where
  "session_users es =
     (case entities es ''sessions'' of
        None \<Rightarrow> []
      | Some s \<Rightarrow>
          (case column_values (entity_df s) ''user_id'' of
             Inl err \<Rightarrow> []
           | Inr users \<Rightarrow> users))"

definition example_build :: "entityset \<Rightarrow> unit" where
  "example_build es = ()"

definition example_evaluate :: "unit \<Rightarrow> entityset \<Rightarrow> (string \<times> cell list) list" where
  "example_evaluate features es =
     (case entities es ''users'' of
        None \<Rightarrow> []
      | Some e \<Rightarrow>
          [(''COUNT(sessions)'',
            map (\<lambda>k. Num (of_nat (length (filter (\<lambda>u. u = k) (session_users es)))))
              (index_labels (entity_df e)))])"


text \<open>The training users of the small instance once sorted by key and without the label.\<close>

definition example_users_df :: frame where
  "example_users_df =
     \<lparr>index_name = [], index_labels = [Num 1, Num 0],
      cols = [(''id'', [Str ''u1'', Str ''u2'']),
              (''age_gender_bucket'', [Str ''b1'', Str ''b1''])]\<rparr>"

text \<open>The training users of the small instance with other labels.\<close>

definition example_relabelled_users :: frame where
  "example_relabelled_users =
     read_csv 2
       [(''id'', [Str ''u2'', Str ''u1'']),
        (''age_gender_bucket'', [Str ''b1'', Str ''b1'']),
        (''country_destination'', [Str ''NDF'', Str ''NDF''])]"

section \<open>Properties\<close>

lemma range_index_0: "range_index 0 = []"
  by (simp add: range_index_def)

lemma range_index_Suc: "range_index (Suc n) = range_index n @ [Num (of_nat n)]"
  by (simp add: range_index_def)

text \<open>
  Claim C2, as stated: on the values 100, 4000, 3600, 3700 the long-session aggregate
  returns 2. It does not: the comparison is \<open>>=\<close>, the boundary value 3600 is counted,
  and three values qualify.
\<close>

theorem count_long_dreaming_sessions_not_two:
  "count_long_dreaming_sessions [Num 100, Num 4000, Num 3600, Num 3700] \<noteq> Inr 2"
  by (simp add: count_long_dreaming_sessions_def DataFrame_of_column_def getitem_def
      thenE_def getitem_mask_def take_rows_def len_def range_index_0 range_index_Suc
      upt_conv_Cons)

text \<open>
  Claim C2, amended: on the values 100, 4000, 3600, 3700 the long-session aggregate
  returns 3; the boundary value 3600 alone is counted once, and a value just below the
  threshold is not counted.
\<close>

theorem count_long_dreaming_sessions_boundary:
  "count_long_dreaming_sessions [Num 100, Num 4000, Num 3600, Num 3700] = Inr 3
   \<and> count_long_dreaming_sessions [Num 3600] = Inr 1
   \<and> count_long_dreaming_sessions [Num 3599] = Inr 0"
  by (simp add: count_long_dreaming_sessions_def DataFrame_of_column_def getitem_def
      thenE_def getitem_mask_def take_rows_def len_def range_index_0 range_index_Suc
      upt_conv_Cons)

subsection \<open>The prediction cell\<close>

lemma run_stmts_no_predictions:
  "list_all keeps_no_predictions c \<Longrightarrow> no_predictions env
   \<Longrightarrow> no_predictions (fst (run_stmts env c))"
proof (induction c arbitrary: env)
  case Nil
  then show ?case by simp
next
  case (Cons s c)
  show ?case
  proof (cases "find (\<lambda>n. n \<notin> set env) (reads s)")
    case (Some n)
    with Cons.prems show ?thesis by simp
  next
    case None
    then have all_bound: "set (reads s) \<subseteq> set env"
      by (auto simp: find_None_iff)
    from Cons.prems have "keeps_no_predictions s" by simp
    with all_bound Cons.prems(2) have "no_predictions (binds s @ env)"
      by (auto simp: keeps_no_predictions_def no_predictions_def)
    moreover from Cons.prems have "list_all keeps_no_predictions c" by simp
    ultimately have "no_predictions (fst (run_stmts (binds s @ env) c))"
      by (rule Cons.IH[rotated])
    with None show ?thesis by simp
  qed
qed

lemma notebook4_keeps_no_predictions:
  "list_all (list_all keeps_no_predictions) notebook4"
  by (simp add: notebook4_def nb4_before_predictions_def nb4_setup_def nb4_filepaths_def
      nb4_read_train_def nb4_select_variables_def nb4_automl_def nb4_train_def
      nb4_leaderboard_def nb4_save_model_def nb4_read_test_def nb4_load_model_def
      nb4_get_predictions_def nb4_submission_def keeps_no_predictions_def)

lemma run_cells_no_predictions:
  "list_all (list_all keeps_no_predictions) cs \<Longrightarrow> no_predictions env
   \<Longrightarrow> no_predictions (run_cells env cs)"
  by (induction cs arbitrary: env) (simp_all add: run_stmts_no_predictions)

lemma nb4_in_order:
  "run_cells builtins nb4_before_predictions =
     [''model'', ''X_test'', ''model_path'', ''lb'', ''aml'', ''variable'',
      ''unrelated_variables'', ''train_variables'', ''response_variable'', ''X_train'',
      ''testing_filepath'', ''training_filepath'', ''SEED'', ''H2OAutoML'', ''h2o'', ''pd'',
      ''print'', ''len'', ''range'']"
  by (simp add: nb4_before_predictions_def nb4_setup_def nb4_filepaths_def
      nb4_read_train_def nb4_select_variables_def nb4_automl_def nb4_train_def
      nb4_leaderboard_def nb4_save_model_def nb4_read_test_def nb4_load_model_def
      builtins_def)

text \<open>
  Claim C10: the prediction cell reads the name \<open>test\<close>, which no cell of the notebook
  binds (the test frame is bound to \<open>X_test\<close>). Whatever cells of the notebook were run
  before it, in whatever order, the prediction cell ends in a NameError and the name
  \<open>predictions\<close> stays unbound; run after the preceding cells in order, the unbound name
  reported is \<open>test\<close>.
\<close>

theorem get_predictions_name_error:
  assumes "set cs \<subseteq> set notebook4"
  shows "(\<exists>n. run_stmts (run_cells builtins cs) nb4_get_predictions =
            (run_cells builtins cs, Some (NameError n)))
         \<and> ''predictions'' \<notin> set (run_cells builtins (cs @ [nb4_get_predictions]))
         \<and> run_stmts (run_cells builtins nb4_before_predictions) nb4_get_predictions =
            (run_cells builtins nb4_before_predictions, Some (NameError ''test''))"
proof -
  have start: "no_predictions builtins"
    by (simp add: no_predictions_def builtins_def)
  from assms notebook4_keeps_no_predictions
  have cells: "list_all (list_all keeps_no_predictions) cs"
    by (auto simp: list_all_iff)
  then have inv: "no_predictions (run_cells builtins cs)"
    using start by (rule run_cells_no_predictions)
  then have unbound: "''test'' \<notin> set (run_cells builtins cs)"
    by (simp add: no_predictions_def)
  have raises: "\<exists>n. run_stmts (run_cells builtins cs) nb4_get_predictions =
      (run_cells builtins cs, Some (NameError n))"
    using unbound by (simp add: nb4_get_predictions_def)
  from notebook4_keeps_no_predictions
  have "list_all keeps_no_predictions nb4_get_predictions"
    by (simp add: notebook4_def)
  with cells have "list_all (list_all keeps_no_predictions) (cs @ [nb4_get_predictions])"
    by simp
  then have "no_predictions (run_cells builtins (cs @ [nb4_get_predictions]))"
    using start by (rule run_cells_no_predictions)
  then have after: "''predictions'' \<notin> set (run_cells builtins (cs @ [nb4_get_predictions]))"
    by (simp add: no_predictions_def)
  have in_order:
    "run_stmts (run_cells builtins nb4_before_predictions) nb4_get_predictions =
       (run_cells builtins nb4_before_predictions, Some (NameError ''test''))"
    by (simp add: nb4_in_order nb4_get_predictions_def)
  from raises after in_order show ?thesis by blast
qed

theorem get_predictions_name_error_witness:
  "set nb4_before_predictions \<subseteq> set notebook4
   \<and> (\<exists>n. run_stmts (run_cells builtins nb4_before_predictions) nb4_get_predictions =
            (run_cells builtins nb4_before_predictions, Some (NameError n)))
   \<and> ''predictions'' \<notin>
       set (run_cells builtins (nb4_before_predictions @ [nb4_get_predictions]))"
proof -
  have sub: "set nb4_before_predictions \<subseteq> set notebook4"
    by (auto simp: notebook4_def)
  from get_predictions_name_error [OF sub] sub show ?thesis by blast
qed

subsection \<open>The keyword-count transform\<close>

lemma lower_example:
  "lower ''This is terrible and disgusting'' = ''this is terrible and disgusting''"
  by (simp add: lower_def lower_char_def upper_case_def lower_case_def)

lemma lower_latin1: "lower [CHR 0xC9, CHR 0xD7, CHR 0xDF] = [CHR 0xE9, CHR 0xD7, CHR 0xDF]"
  by (simp add: lower_def lower_char_def upper_case_def lower_case_def)

lemma review_count_example:
  "review_count [''terrible'', ''disgusting''] ''This is terrible and disgusting'' = 2"
  by (simp add: review_count_def lower_example str_count_def)

lemma anger_words_count_with_numpy:
  "anger_words_count [''np''] [''This is terrible and disgusting'']
     [''terrible'', ''disgusting''] = Inr [2]"
  by (simp add: review_count_example thenE_def)

lemma notebook2_names:
  "run_cells builtins notebook2 =
     [''feature_matrix_test'', ''feature_matrix'', ''feature_matrix_test'',
      ''feature_matrix'', ''feature_definitions'', ''transformations'', ''aggregations'',
      ''feature_definitions'', ''CountLongDreamingSessions'',
      ''count_long_dreaming_sessions'', ''AngerWordsCount'', ''anger_words_count'',
      ''Text'', ''Numeric'', ''Categorical'', ''make_agg_primitive'',
      ''make_trans_primitive'', ''bucket_to_bucket_test'', ''id_to_id_test'',
      ''bucket_to_bucket'', ''id_to_id'', ''es_test'', ''es_test'', ''es_test'', ''es_test'',
      ''es'', ''es'', ''es'', ''es'', ''targets'', ''sessions_df'', ''buckets_df'',
      ''users_test_df'', ''users_df'', ''date_variables'', ''unknown_to_nan'', ''ft'', ''pd'',
      ''print'', ''len'', ''range'']"
  by (simp add: notebook2_def nb2_imports_def nb2_read_data_def nb2_entity_sets_def
      nb2_relationships_def nb2_custom_primitives_def nb2_dfs_def nb2_replay_def
      nb2_unknowns_def nb2_save_def builtins_def)

text \<open>
  Claim C5, on the code: in the kernel of notebook (2), with every cell run, a call of
  the keyword-count transform on the text "This is terrible and disgusting" with the
  keywords "terrible" and "disgusting" raises NameError for \<open>np\<close>, which the notebook
  never imports; it does not return 2.
\<close>

theorem anger_words_count_name_error:
  "anger_words_count (run_cells builtins notebook2)
     [''This is terrible and disgusting''] [''terrible'', ''disgusting'']
   = Inl (NameError ''np'')"
  by (simp add: notebook2_names)

subsection \<open>The submission writer\<close>

lemma range_index_2: "range_index 2 = [Num 0, Num 1]"
  by (simp add: range_index_def upt_conv_Cons)

lemma argsort_b_a: "argsort [Str ''b'', Str ''a''] = [1, 0]"
  by (simp add: argsort_def upt_conv_Cons)

text \<open>
  Claim C1, on the code: the raw test-users file lists the keys b, a, and the model
  predicted US for the first feature row and FR for the second; the feature rows are in
  key order, so US is the prediction for a and FR the one for b. The file written has
  the two columns id and country and its keys in sorted order, but the series of
  predictions is stored by label, and the sorted keys still carry the labels of their
  raw positions: a receives FR and b receives US.
\<close>

theorem submission_attaches_by_raw_position:
  "submission
     (read_csv 2 [(''id'', [Str ''b'', Str ''a''])])
     (read_csv 2 [(''predict'', [Str ''US'', Str ''FR''])])
   = Inr ([''id'', ''country''], [[Str ''a'', Str ''FR''], [Str ''b'', Str ''US'']])"
  by (simp add: submission_def read_csv_def range_index_2 sort_values_def mixed_def
      argsort_b_a take_rows_def getitem_def thenE_def setitem_series_def adopt_index_def
      DataFrame_empty_def reindex_def set_index_def to_csv_def columns_def upt_conv_Cons)

subsection \<open>Post-processing\<close>

lemma unknown_to_nan_shape:
  "columns (unknown_to_nan df) = columns df
   \<and> index_labels (unknown_to_nan df) = index_labels df
   \<and> index_name (unknown_to_nan df) = index_name df"
  by (simp add: unknown_to_nan_def columns_def comp_def case_prod_unfold)

lemma unknown_to_nan_column:
  "map_of (cols (unknown_to_nan df)) n = map_option (map unknown_to_nan_cell) (map_of (cols df) n)"
  by (simp add: unknown_to_nan_def map_of_map)

lemma wf_unknown_to_nan:
  assumes "wf_frame df"
  shows "wf_frame (unknown_to_nan df)"
proof -
  from assms have "distinct (columns (unknown_to_nan df))"
    by (simp add: wf_frame_def unknown_to_nan_shape)
  moreover from assms
  have "list_all (\<lambda>c. length (snd c) = length (index_labels (unknown_to_nan df)))
          (cols (unknown_to_nan df))"
    by (auto simp: wf_frame_def list_all_iff unknown_to_nan_def)
  ultimately show ?thesis by (simp add: wf_frame_def)
qed

text \<open>
  Claim C6: post-processing keeps the shape of the matrix (columns, their order, the
  rows); every cell that is the "unknown" sentinel becomes the missing marker, and every
  other cell, a zero and the missing marker itself among them, is left as it is: nothing
  is filled in. The sentinel and a zero differ before and still differ after.
\<close>

theorem unknown_to_nan_cells:
  "columns (unknown_to_nan df) = columns df
   \<and> index_labels (unknown_to_nan df) = index_labels df
   \<and> (\<forall>n c. map_of (cols df) n = Some c \<longrightarrow>
         (\<exists>c'. map_of (cols (unknown_to_nan df)) n = Some c' \<and> length c' = length c \<and>
            (\<forall>i < length c. (c ! i = Str ''unknown'' \<longrightarrow> c' ! i = NaN)
                            \<and> (c ! i \<noteq> Str ''unknown'' \<longrightarrow> c' ! i = c ! i))))
   \<and> Str ''unknown'' \<noteq> Num 0
   \<and> unknown_to_nan_cell (Str ''unknown'') = NaN
   \<and> unknown_to_nan_cell (Num 0) = Num 0
   \<and> unknown_to_nan_cell NaN = NaN"
  by (simp add: unknown_to_nan_shape unknown_to_nan_column unknown_to_nan_cell_def)

theorem unknown_to_nan_cells_witness:
  "map_of (cols (read_csv 3 [(''NUM_UNIQUE(sessions.action)'', [Num 0, Str ''unknown'', NaN])]))
       ''NUM_UNIQUE(sessions.action)'' = Some [Num 0, Str ''unknown'', NaN]
   \<and> map_of (cols (unknown_to_nan
        (read_csv 3 [(''NUM_UNIQUE(sessions.action)'', [Num 0, Str ''unknown'', NaN])])))
       ''NUM_UNIQUE(sessions.action)'' = Some [Num 0, NaN, NaN]"
  using unknown_to_nan_cells
    [of "read_csv 3 [(''NUM_UNIQUE(sessions.action)'', [Num 0, Str ''unknown'', NaN])]"]
  by (simp add: read_csv_def unknown_to_nan_def unknown_to_nan_cell_def)

subsection \<open>Sorting and the steps of notebook (2)\<close>

lemma thenE_Inr: "thenE m f = Inr y \<longleftrightarrow> (\<exists>x. m = Inr x \<and> f x = Inr y)"
  by (cases m) (simp_all add: thenE_def)

lemma thenE_Inl: "thenE (Inl e) f = Inl e"
  by (simp add: thenE_def)

lemma thenE_Inr_apply: "thenE (Inr x) f = f x"
  by (simp add: thenE_def)

lemma index_labels_take_rows:
  "index_labels (take_rows df ps) = map ((!) (index_labels df)) ps"
  by (simp add: take_rows_def)

lemma column_take_rows:
  "map_of (cols (take_rows df ps)) n = map_option (\<lambda>c. map ((!) c) ps) (map_of (cols df) n)"
  by (simp add: take_rows_def map_of_map)

lemma columns_take_rows: "columns (take_rows df ps) = columns df"
  by (simp add: take_rows_def columns_def comp_def case_prod_unfold)

lemma insort_key_map:
  "insort_key f (g y) (map g zs) = map g (insort_key (\<lambda>z. f (g z)) y zs)"
  by (induction zs) simp_all

lemma sort_key_map: "sort_key f (map g ys) = map g (sort_key (\<lambda>y. f (g y)) ys)"
  by (induction ys) (simp_all add: insort_key_map)

lemma sort_key_by_positions:
  "sort_key f xs = map ((!) xs) (sort_key (\<lambda>i. f (xs ! i)) [0..<length xs])"
proof -
  have "sort_key f xs = sort_key f (map ((!) xs) [0..<length xs])"
    by (simp add: map_nth)
  then show ?thesis by (simp only: sort_key_map)
qed

lemma set_argsort: "set (argsort keys) = {0..<length keys}"
  by (simp add: argsort_def)

lemma length_argsort: "length (argsort keys) = length keys"
  by (simp add: argsort_def)

lemma sorted_argsort: "sorted (map (\<lambda>i. cell_rank (keys ! i)) (argsort keys))"
  unfolding argsort_def by (rule sorted_sort_key)

lemma distinct_argsort: "distinct (argsort keys)"
  by (simp add: argsort_def)

lemma sorted_keys_take: "sorted (map cell_rank (map ((!) keys) (argsort keys)))"
  using sorted_argsort [of keys] by (simp add: comp_def)

lemma sort_sorted_keys:
  "sort_key cell_rank (map ((!) keys) (argsort keys)) = map ((!) keys) (argsort keys)"
  by (rule sort_key_id_if_sorted) (rule sorted_keys_take)

lemma distinct_take_argsort:
  "distinct (map ((!) keys) (argsort keys)) \<longleftrightarrow> distinct keys"
proof -
  have "distinct (map ((!) keys) [0..<length keys]) \<longleftrightarrow> inj_on ((!) keys) {0..<length keys}"
    by (simp add: distinct_map)
  then have "distinct keys \<longleftrightarrow> inj_on ((!) keys) {0..<length keys}"
    by (simp only: map_nth)
  then show ?thesis
    by (simp add: distinct_map distinct_argsort set_argsort)
qed

lemma insort_key_agree:
  "f x = g x \<Longrightarrow> (\<And>y. y \<in> set ys \<Longrightarrow> f y = g y)
   \<Longrightarrow> insort_key f x ys = insort_key g x ys"
  by (induction ys) simp_all

lemma sort_key_agree:
  "(\<And>x. x \<in> set xs \<Longrightarrow> f x = g x) \<Longrightarrow> sort_key f xs = sort_key g xs"
proof (induction xs)
  case Nil
  then show ?case by simp
next
  case (Cons x xs)
  then have "sort_key f xs = sort_key g xs" by simp
  moreover have "insort_key f x (sort_key g xs) = insort_key g x (sort_key g xs)"
    using Cons.prems by (intro insort_key_agree) simp_all
  ultimately show ?case by simp
qed

lemma zip_take_argsort:
  assumes "length vs = length keys"
  shows "zip (map ((!) keys) (argsort keys)) (map ((!) vs) (argsort keys))
         = sort_key (\<lambda>(k, c). cell_rank k) (zip keys vs)"
proof -
  have pos: "\<And>i. i \<in> set (argsort keys) \<Longrightarrow> zip keys vs ! i = (keys ! i, vs ! i)"
    using assms by (simp add: set_argsort)
  have "sort_key (\<lambda>i. case zip keys vs ! i of (k, c) \<Rightarrow> cell_rank k) [0..<length (zip keys vs)]
        = sort_key (\<lambda>i. cell_rank (keys ! i)) [0..<length (zip keys vs)]"
    using assms by (intro sort_key_agree) simp
  then have order: "sort_key (\<lambda>i. case zip keys vs ! i of (k, c) \<Rightarrow> cell_rank k)
          [0..<length (zip keys vs)] = argsort keys"
    using assms by (simp add: argsort_def)
  have "sort_key (\<lambda>(k, c). cell_rank k) (zip keys vs)
        = map ((!) (zip keys vs))
            (sort_key (\<lambda>i. case zip keys vs ! i of (k, c) \<Rightarrow> cell_rank k)
               [0..<length (zip keys vs)])"
    by (rule sort_key_by_positions)
  also have "\<dots> = map ((!) (zip keys vs)) (argsort keys)"
    by (simp only: order)
  also have "\<dots> = map (\<lambda>i. (keys ! i, vs ! i)) (argsort keys)"
    using pos by (intro map_cong) simp_all
  also have "\<dots> = zip (map ((!) keys) (argsort keys)) (map ((!) vs) (argsort keys))"
    by (simp add: zip_map_map zip_same_conv_map)
  finally show ?thesis by simp
qed

lemma column_values_Inr: "column_values df n = Inr vs \<longleftrightarrow> map_of (cols df) n = Some vs"
  by (simp add: column_values_def split: option.splits)

lemma sort_values_Inr:
  assumes "sort_values df c = Inr df'"
  obtains keys where "map_of (cols df) c = Some keys" "df' = take_rows df (argsort keys)"
  using assms by (auto simp: sort_values_def split: option.splits if_splits)

lemma drop_column_Inr:
  "drop_column df n = Inr df' \<Longrightarrow> df' = df\<lparr>cols := AList.delete n (cols df)\<rparr>"
  by (auto simp: drop_column_def split: if_splits)

lemma read_data_Inr:
  assumes run: "read_data users_csv users_test_csv = Inr (users_df, users_test_df, targets)"
    and ids: "column_values users_csv ''id'' = Inr ids"
    and labels: "column_values users_csv ''country_destination'' = Inr labels"
  shows "targets = map ((!) labels) (argsort ids)"
    and "map_of (cols users_df) ''id'' = Some (map ((!) ids) (argsort ids))"
    and "users_df = (take_rows users_csv (argsort ids))
           \<lparr>cols := AList.delete ''country_destination''
                      (cols (take_rows users_csv (argsort ids)))\<rparr>"
proof -
  from run obtain u1 where
    u1: "sort_values users_csv ''id'' = Inr u1" and
    t: "column_values u1 ''country_destination'' = Inr targets" and
    d: "drop_column u1 ''country_destination'' = Inr users_df"
    by (auto simp: read_data_def thenE_Inr)
  from u1 ids have u1_eq: "u1 = take_rows users_csv (argsort ids)"
    by (auto elim!: sort_values_Inr simp: column_values_Inr)
  from t labels show "targets = map ((!) labels) (argsort ids)"
    by (auto simp: u1_eq column_values_Inr column_take_rows)
  from d show eq: "users_df = (take_rows users_csv (argsort ids))
           \<lparr>cols := AList.delete ''country_destination''
                      (cols (take_rows users_csv (argsort ids)))\<rparr>"
    by (auto dest!: drop_column_Inr simp: u1_eq)
  from ids show "map_of (cols users_df) ''id'' = Some (map ((!) ids) (argsort ids))"
    by (simp add: eq column_values_Inr column_take_rows)
qed

lemma map_of_Some_columns: "map_of (cols df) n = Some c \<Longrightarrow> n \<in> set (columns df)"
  by (auto simp: columns_def dest: map_of_SomeD intro: rev_image_eqI)

lemma entity_from_dataframe_Inr:
  assumes "entity_from_dataframe ip es eid df ic mk = Inr (es', d')"
  obtains e keys where
    "entities es' = (entities es)(eid \<mapsto> e)"
    "relationships es' = relationships es"
    "entity_index e = ic"
    "cols (entity_df e) = cols (with_index df ic)"
    "index_labels (entity_df e) = keys"
    "map_of (cols (with_index df ic)) ic = Some keys"
    "distinct keys"
    "d' = (if ip then with_index df ic else df)"
    "\<not> (mk \<and> ic \<in> set (columns df))"
proof -
  have no_clash: "\<not> (mk \<and> ic \<in> set (columns df))"
  proof
    assume "mk \<and> ic \<in> set (columns df)"
    then have "entity_from_dataframe ip es eid df ic mk = Inl RuntimeError"
      by (simp add: entity_from_dataframe_def)
    with assms show False by simp
  qed
  define df1 where "df1 = with_index df ic"
  define ent where "ent = (\<lambda>keys. \<lparr>entity_df = df1\<lparr>index_labels := keys\<rparr>, entity_index = ic\<rparr>)"
  from assms no_clash have "thenE (column_values df1 ic) (\<lambda>keys.
       if \<not> distinct keys then Inl AssertionError
       else Inr (es\<lparr>entities := (entities es)(eid \<mapsto> ent keys)\<rparr>,
                 if ip then df1 else df)) = Inr (es', d')"
    unfolding entity_from_dataframe_def df1_def ent_def Let_def
    by (simp only: if_False)
  then obtain keys where
    k: "column_values df1 ic = Inr keys" and
    r: "(if \<not> distinct keys then Inl AssertionError
         else Inr (es\<lparr>entities := (entities es)(eid \<mapsto> ent keys)\<rparr>,
                 if ip then df1 else df)) = Inr (es', d')"
    unfolding thenE_Inr by blast
  have d: "distinct keys"
  proof (rule ccontr)
    assume "\<not> distinct keys"
    with r show False by simp
  qed
  with r have "Inr (es\<lparr>entities := (entities es)(eid \<mapsto> ent keys)\<rparr>,
                 if ip then df1 else df) = (Inr (es', d') :: error + entityset \<times> frame)"
    by (simp only: not_True_eq_False if_False simp_thms)
  then have e1: "es' = es\<lparr>entities := (entities es)(eid \<mapsto> ent keys)\<rparr>"
    and e2: "d' = (if ip then df1 else df)"
    by (simp_all only: sum.inject prod.inject)
  from k have m: "map_of (cols df1) ic = Some keys"
    by (simp add: column_values_Inr)
  have "entities es' = (entities es)(eid \<mapsto> ent keys)" by (simp add: e1)
  moreover have "relationships es' = relationships es" by (simp add: e1)
  moreover have "entity_index (ent keys) = ic" by (simp add: ent_def)
  moreover have "cols (entity_df (ent keys)) = cols (with_index df ic)"
    by (simp add: ent_def df1_def)
  moreover have "index_labels (entity_df (ent keys)) = keys" by (simp add: ent_def)
  moreover from m have "map_of (cols (with_index df ic)) ic = Some keys"
    by (simp add: df1_def)
  moreover note d
  moreover from e2 have "d' = (if ip then with_index df ic else df)" by (simp add: df1_def)
  moreover note no_clash
  ultimately show thesis by (rule that)
qed

lemma entity_sets_steps:
  assumes "entity_sets ip users_df users_test_df sessions_df buckets_df = Inr (es, es_test)"
  obtains es1 d1 es2 d2 d3 et1 dt1 et2 dt2 dt3 where
    "entity_from_dataframe ip (EntitySet ''bookings'') ''users'' users_df ''id'' False
       = Inr (es1, d1)"
    "entity_from_dataframe ip es1 ''sessions'' sessions_df ''data_id'' True = Inr (es2, d2)"
    "entity_from_dataframe ip es2 ''buckets'' buckets_df ''bucket_id'' False = Inr (es, d3)"
    "entity_from_dataframe ip (EntitySet ''bookings_test'') ''users'' users_test_df ''id'' False
       = Inr (et1, dt1)"
    "entity_from_dataframe ip et1 ''sessions'' d2 ''data_id'' False = Inr (et2, dt2)"
    "entity_from_dataframe ip et2 ''buckets'' d3 ''bucket_id'' False = Inr (es_test, dt3)"
  using assms by (auto simp: entity_sets_def thenE_Inr)

lemma with_index_present:
  "map_of (cols df) ic = Some keys \<Longrightarrow> with_index df ic = df"
  by (simp add: with_index_def map_of_Some_columns)

lemma with_index_absent:
  "ic \<notin> set (columns df) \<Longrightarrow>
   map_of (cols (with_index df ic)) ic = Some (range_index (length (index_labels df)))"
  by (simp add: with_index_def insert_range_column_def)

lemma with_index_idem: "with_index (with_index df ic) ic = with_index df ic"
  by (simp add: with_index_def insert_range_column_def columns_def)

lemma three_entities:
  assumes s1: "entity_from_dataframe ip (EntitySet name) ''users'' users_df ''id'' False
       = Inr (es1, d1)"
    and s2: "entity_from_dataframe ip es1 ''sessions'' sessions_df ''data_id'' mk = Inr (es2, d2)"
    and s3: "entity_from_dataframe ip es2 ''buckets'' buckets_df ''bucket_id'' False = Inr (es3, d3)"
  obtains eu ku es ks eb kb where
    "entities es3 ''users'' = Some eu" "entity_index eu = ''id''"
    "cols (entity_df eu) = cols (with_index users_df ''id'')"
    "index_labels (entity_df eu) = ku"
    "map_of (cols (with_index users_df ''id'')) ''id'' = Some ku" "distinct ku"
    "entities es3 ''sessions'' = Some es" "entity_index es = ''data_id''"
    "cols (entity_df es) = cols (with_index sessions_df ''data_id'')"
    "index_labels (entity_df es) = ks"
    "map_of (cols (with_index sessions_df ''data_id'')) ''data_id'' = Some ks" "distinct ks"
    "entities es3 ''buckets'' = Some eb" "entity_index eb = ''bucket_id''"
    "cols (entity_df eb) = cols (with_index buckets_df ''bucket_id'')"
    "index_labels (entity_df eb) = kb"
    "map_of (cols (with_index buckets_df ''bucket_id'')) ''bucket_id'' = Some kb" "distinct kb"
    "relationships es3 = []"
    "d2 = (if ip then with_index sessions_df ''data_id'' else sessions_df)"
    "d3 = (if ip then with_index buckets_df ''bucket_id'' else buckets_df)"
proof -
  from s1 obtain eu ku where
    u: "entities es1 = (entities (EntitySet name))(''users'' \<mapsto> eu)"
      "relationships es1 = relationships (EntitySet name)"
      "entity_index eu = ''id''"
      "cols (entity_df eu) = cols (with_index users_df ''id'')"
      "index_labels (entity_df eu) = ku"
      "map_of (cols (with_index users_df ''id'')) ''id'' = Some ku" "distinct ku"
    by (rule entity_from_dataframe_Inr)
  from s2 obtain es ks where
    s: "entities es2 = (entities es1)(''sessions'' \<mapsto> es)"
      "relationships es2 = relationships es1"
      "entity_index es = ''data_id''"
      "cols (entity_df es) = cols (with_index sessions_df ''data_id'')"
      "index_labels (entity_df es) = ks"
      "map_of (cols (with_index sessions_df ''data_id'')) ''data_id'' = Some ks" "distinct ks"
      "d2 = (if ip then with_index sessions_df ''data_id'' else sessions_df)"
    by (rule entity_from_dataframe_Inr)
  from s3 obtain eb kb where
    b: "entities es3 = (entities es2)(''buckets'' \<mapsto> eb)"
      "relationships es3 = relationships es2"
      "entity_index eb = ''bucket_id''"
      "cols (entity_df eb) = cols (with_index buckets_df ''bucket_id'')"
      "index_labels (entity_df eb) = kb"
      "map_of (cols (with_index buckets_df ''bucket_id'')) ''bucket_id'' = Some kb" "distinct kb"
      "d3 = (if ip then with_index buckets_df ''bucket_id'' else buckets_df)"
    by (rule entity_from_dataframe_Inr)
  have eu: "entities es3 ''users'' = Some eu"
    by (simp add: b(1) s(1) u(1))
  have es: "entities es3 ''sessions'' = Some es"
    by (simp add: b(1) s(1))
  have eb: "entities es3 ''buckets'' = Some eb"
    by (simp add: b(1))
  have r: "relationships es3 = []"
    by (simp add: b(2) s(2) u(2) EntitySet_def)
  show thesis
    by (rule that [OF eu u(3) u(4) u(5) u(6) u(7) es s(3) s(4) s(5) s(6) s(7)
          eb b(3) b(4) b(5) b(6) b(7) r s(8) b(8)])
qed

lemma add_relationships_entities: "entities (add_relationships es rs) = entities es"
  by (induction rs arbitrary: es) simp_all

lemma add_relationships_set:
  "set (relationships (add_relationships es rs)) = set (relationships es) \<union> set rs"
  by (induction rs arbitrary: es) auto

lemma variable_Inr:
  assumes "variable es e v = Inr x"
  obtains ent where "entities es e = Some ent" "v \<in> set (columns (entity_df ent))"
    "x = \<lparr>var_entity = e, var_id = v, var_entity_index = entity_index ent\<rparr>"
  using assms by (auto simp: variable_def split: option.splits if_splits)

lemma declare_relationship_Inr:
  assumes "declare_relationship es parent child = Inr r"
  obtains e where "entities es (fst parent) = Some e" "snd parent = entity_index e"
    "snd parent \<in> set (columns (entity_df e))"
    "r = \<lparr>parent_entity = fst parent, parent_variable = snd parent,
          child_entity = fst child, child_variable = snd child\<rparr>"
proof -
  from assms obtain p c where
    p: "variable es (fst parent) (snd parent) = Inr p" and
    c: "variable es (fst child) (snd child) = Inr c" and
    r: "Relationship p c = Inr r"
    by (auto simp: declare_relationship_def thenE_Inr)
  from p obtain e where
    e: "entities es (fst parent) = Some e" "snd parent \<in> set (columns (entity_df e))"
    "p = \<lparr>var_entity = fst parent, var_id = snd parent, var_entity_index = entity_index e\<rparr>"
    by (rule variable_Inr)
  from c obtain e' :: entity where
    "c = \<lparr>var_entity = fst child, var_id = snd child, var_entity_index = entity_index e'\<rparr>"
    by (rule variable_Inr)
  with r e(3) have "snd parent = entity_index e"
    and "r = \<lparr>parent_entity = fst parent, parent_variable = snd parent,
          child_entity = fst child, child_variable = snd child\<rparr>"
    by (auto simp: Relationship_def split: if_splits)
  with e(1) e(2) show thesis by (intro that)
qed


lemma declare_relationships_Inr:
  assumes "declare_relationships es = Inr es'"
  shows "entities es' = entities es"
    and "set (relationships es') = set (relationships es) \<union> {id_to_id, bucket_to_bucket}"
    and "es' = add_relationships es [id_to_id, bucket_to_bucket]"
    and "declare_relationship es (''users'', ''id'') (''sessions'', ''user_id'') = Inr id_to_id"
    and "declare_relationship es (''buckets'', ''bucket_id'') (''users'', ''age_gender_bucket'')
           = Inr bucket_to_bucket"
proof -
  from assms obtain r1 r2 where
    d1: "declare_relationship es (''users'', ''id'') (''sessions'', ''user_id'') = Inr r1" and
    d2: "declare_relationship es (''buckets'', ''bucket_id'') (''users'', ''age_gender_bucket'')
           = Inr r2" and
    r: "es' = add_relationships es [r1, r2]"
    by (auto simp: declare_relationships_def thenE_Inr)
  from d1 have r1: "r1 = id_to_id"
    by (rule declare_relationship_Inr) (simp add: id_to_id_def)
  from d2 have r2: "r2 = bucket_to_bucket"
    by (rule declare_relationship_Inr) (simp add: bucket_to_bucket_def)
  show "entities es' = entities es"
    by (simp only: r add_relationships_entities)
  show "set (relationships es') = set (relationships es) \<union> {id_to_id, bucket_to_bucket}"
    unfolding r add_relationships_set r1 r2 by auto
  from r r1 r2 show "es' = add_relationships es [id_to_id, bucket_to_bucket]" by simp
  from d1 r1 show "declare_relationship es (''users'', ''id'') (''sessions'', ''user_id'')
      = Inr id_to_id" by simp
  from d2 r2 show "declare_relationship es (''buckets'', ''bucket_id'')
      (''users'', ''age_gender_bucket'') = Inr bucket_to_bucket" by simp
qed

lemma set_interesting_values_Inr:
  assumes "set_interesting_values es e v vs = Inr es'"
  shows "entities es' = entities es" and "relationships es' = relationships es"
  using assms by (auto simp: set_interesting_values_def thenE_Inr)

lemma assemble_Inr:
  assumes "assemble ip users_csv users_test_csv buckets_df sessions_df
             = Inr (es, es_test, targets)"
  obtains users_df users_test_df es0 et0 es1 where
    "read_data users_csv users_test_csv = Inr (users_df, users_test_df, targets)"
    "entity_sets ip users_df users_test_df sessions_df buckets_df = Inr (es0, et0)"
    "declare_relationships es0 = Inr es1"
    "declare_relationships et0 = Inr es_test"
    "set_interesting_values es1 ''sessions'' ''action_detail''
       [''view_search_results'', ''wishlist_content_update''] = Inr es"
  using assms by (auto simp: assemble_def thenE_Inr)

lemma calculate_feature_matrix_Inr:
  assumes "calculate_feature_matrix by_key evaluate features es = Inr fm"
  obtains e where "entities es ''users'' = Some e"
    "fm = \<lparr>index_name = entity_index e, index_labels = instance_ids by_key e,
           cols = evaluate features es\<rparr>"
  using assms by (auto simp: calculate_feature_matrix_def split: option.splits)

lemma feature_engineering_Inr:
  assumes "feature_engineering ip by_key build_features evaluate
             users_csv users_test_csv buckets_df sessions_df
             = Inr (feature_matrix, feature_matrix_test)"
  obtains es es_test targets fm fmt where
    "assemble ip users_csv users_test_csv buckets_df sessions_df = Inr (es, es_test, targets)"
    "calculate_feature_matrix by_key evaluate (build_features es) es = Inr fm"
    "calculate_feature_matrix by_key evaluate (build_features es) es_test = Inr fmt"
    "setitem_array (unknown_to_nan fm) ''country_destination'' targets = Inr feature_matrix"
    "feature_matrix_test = unknown_to_nan fmt"
  using assms
  by (auto simp: feature_engineering_def dfs_def thenE_Inr Let_def)

lemma setitem_array_same_length:
  assumes "length vs = length (index_labels df)"
  shows "setitem_array df name vs = Inr (df\<lparr>cols := AList.update name vs (cols df)\<rparr>)"
proof -
  have "adopt_index df (range_index (length vs)) = df"
    using assms by (auto simp: adopt_index_def range_index_def)
  with assms show ?thesis by (simp add: setitem_array_def)
qed

lemma getitem_updated:
  "getitem (df\<lparr>cols := AList.update name vs (cols df)\<rparr>) name = Inr (zip (index_labels df) vs)"
  by (simp add: getitem_def update_conv')

lemma wf_frame_column_length:
  "wf_frame df \<Longrightarrow> map_of (cols df) n = Some c \<Longrightarrow> length c = length (index_labels df)"
  by (auto simp: wf_frame_def list_all_iff dest!: map_of_SomeD)

lemma train_users_entity:
  assumes asm: "assemble ip users_csv users_test_csv buckets_df sessions_df
             = Inr (es, es_test, targets)"
    and ids: "column_values users_csv ''id'' = Inr ids"
    and labels: "column_values users_csv ''country_destination'' = Inr labels"
  obtains e where "entities es ''users'' = Some e"
    "index_labels (entity_df e) = map ((!) ids) (argsort ids)"
    "distinct ids" "targets = map ((!) labels) (argsort ids)"
    "cols (entity_df e)
       = AList.delete ''country_destination'' (cols (take_rows users_csv (argsort ids)))"
proof -
  from asm obtain users_df users_test_df es0 et0 es1 where
    rd: "read_data users_csv users_test_csv = Inr (users_df, users_test_df, targets)" and
    en: "entity_sets ip users_df users_test_df sessions_df buckets_df = Inr (es0, et0)" and
    r1: "declare_relationships es0 = Inr es1" and
    iv: "set_interesting_values es1 ''sessions'' ''action_detail''
       [''view_search_results'', ''wishlist_content_update''] = Inr es"
    by (rule assemble_Inr)
  from rd ids labels have t: "targets = map ((!) labels) (argsort ids)"
    and k: "map_of (cols users_df) ''id'' = Some (map ((!) ids) (argsort ids))"
    and u: "users_df = (take_rows users_csv (argsort ids))
           \<lparr>cols := AList.delete ''country_destination''
                      (cols (take_rows users_csv (argsort ids)))\<rparr>"
    by (rule read_data_Inr)+
  from en obtain a1 d1 a2 d2 d3 where
    "entity_from_dataframe ip (EntitySet ''bookings'') ''users'' users_df ''id'' False
       = Inr (a1, d1)"
    "entity_from_dataframe ip a1 ''sessions'' sessions_df ''data_id'' True = Inr (a2, d2)"
    "entity_from_dataframe ip a2 ''buckets'' buckets_df ''bucket_id'' False = Inr (es0, d3)"
    by (rule entity_sets_steps)
  then obtain eu ku where
    eu: "entities es0 ''users'' = Some eu" "index_labels (entity_df eu) = ku"
      "map_of (cols (with_index users_df ''id'')) ''id'' = Some ku" "distinct ku"
      "cols (entity_df eu) = cols (with_index users_df ''id'')"
    by (rule three_entities)
  from k have w: "with_index users_df ''id'' = users_df"
    by (rule with_index_present)
  with eu(3) k have ku: "ku = map ((!) ids) (argsort ids)" by simp
  from eu(5) w have "cols (entity_df eu) = cols users_df" by simp
  also from u have "\<dots> = AList.delete ''country_destination''
      (cols (take_rows users_csv (argsort ids)))"
    by (cases users_df) simp
  finally have c: "cols (entity_df eu)
       = AList.delete ''country_destination'' (cols (take_rows users_csv (argsort ids)))" .
  from r1 have "entities es1 = entities es0" by (rule declare_relationships_Inr)
  moreover from iv have "entities es = entities es1" by (rule set_interesting_values_Inr)
  ultimately have "entities es ''users'' = Some eu" using eu(1) by simp
  moreover from eu(2) ku have "index_labels (entity_df eu) = map ((!) ids) (argsort ids)"
    by simp
  moreover from eu(4) ku have "distinct ids" by (simp add: distinct_take_argsort)
  ultimately show thesis using t c by (rule that)
qed

lemma delete_map_values:
  "AList.delete k (map (\<lambda>(n, c). (n, g c)) cs) = map (\<lambda>(n, c). (n, g c)) (AList.delete k cs)"
  by (induction cs) auto

lemma read_data_from_dropped:
  assumes rd: "read_data users_csv users_test_csv = Inr (users_df, users_test_df, targets)"
  obtains dropped ids where
    "drop_column users_csv ''country_destination'' = Inr dropped"
    "map_of (cols dropped) ''id'' = Some ids"
    "users_df = take_rows dropped (argsort ids)"
    "length targets = length ids"
    "sort_values users_test_csv ''id'' = Inr users_test_df"
proof -
  from rd obtain u1 where
    u1: "sort_values users_csv ''id'' = Inr u1" and
    ut: "sort_values users_test_csv ''id'' = Inr users_test_df" and
    t: "column_values u1 ''country_destination'' = Inr targets" and
    d: "drop_column u1 ''country_destination'' = Inr users_df"
    by (auto simp: read_data_def thenE_Inr)
  from u1 obtain ids where
    ids: "map_of (cols users_csv) ''id'' = Some ids" and
    u1_eq: "u1 = take_rows users_csv (argsort ids)"
    by (rule sort_values_Inr)
  define dropped where
    "dropped = users_csv\<lparr>cols := AList.delete ''country_destination'' (cols users_csv)\<rparr>"
  from d have "''country_destination'' \<in> set (columns u1)"
    by (auto simp: drop_column_def split: if_splits)
  then have "''country_destination'' \<in> set (columns users_csv)"
    by (simp add: u1_eq columns_take_rows)
  then have 1: "drop_column users_csv ''country_destination'' = Inr dropped"
    by (simp add: drop_column_def dropped_def)
  from ids have 2: "map_of (cols dropped) ''id'' = Some ids"
    by (simp add: dropped_def)
  from d have "users_df = u1\<lparr>cols := AList.delete ''country_destination'' (cols u1)\<rparr>"
    by (rule drop_column_Inr)
  then have 3: "users_df = take_rows dropped (argsort ids)"
    by (simp add: u1_eq dropped_def take_rows_def delete_map_values)
  from t have "length targets = length (argsort ids)"
    by (auto simp: u1_eq column_values_Inr column_take_rows)
  then have 4: "length targets = length ids"
    by (simp add: length_argsort)
  from 1 2 3 4 ut show thesis by (rule that)
qed

lemma assemble_same_dropped:
  assumes a1: "assemble ip users_csv users_test_csv buckets_df sessions_df
                 = Inr (es, es_test, targets)"
    and a2: "assemble ip users_csv' users_test_csv buckets_df sessions_df
                 = Inr (es', es_test', targets')"
    and d: "drop_column users_csv' ''country_destination''
              = drop_column users_csv ''country_destination''"
  shows "es' = es" and "es_test' = es_test" and "length targets' = length targets"
proof -
  from a1 obtain users_df users_test_df es0 et0 es1 where
    rd: "read_data users_csv users_test_csv = Inr (users_df, users_test_df, targets)" and
    en: "entity_sets ip users_df users_test_df sessions_df buckets_df = Inr (es0, et0)" and
    r1: "declare_relationships es0 = Inr es1" and
    r2: "declare_relationships et0 = Inr es_test" and
    iv: "set_interesting_values es1 ''sessions'' ''action_detail''
       [''view_search_results'', ''wishlist_content_update''] = Inr es"
    by (rule assemble_Inr)
  from a2 obtain users_df' users_test_df' es0' et0' es1' where
    rd': "read_data users_csv' users_test_csv = Inr (users_df', users_test_df', targets')" and
    en': "entity_sets ip users_df' users_test_df' sessions_df buckets_df = Inr (es0', et0')" and
    r1': "declare_relationships es0' = Inr es1'" and
    r2': "declare_relationships et0' = Inr es_test'" and
    iv': "set_interesting_values es1' ''sessions'' ''action_detail''
       [''view_search_results'', ''wishlist_content_update''] = Inr es'"
    by (rule assemble_Inr)
  from rd obtain dropped ids where
    f: "drop_column users_csv ''country_destination'' = Inr dropped"
      "map_of (cols dropped) ''id'' = Some ids"
      "users_df = take_rows dropped (argsort ids)"
      "length targets = length ids"
      "sort_values users_test_csv ''id'' = Inr users_test_df"
    by (rule read_data_from_dropped)
  from rd' obtain dropped' ids' where
    f': "drop_column users_csv' ''country_destination'' = Inr dropped'"
      "map_of (cols dropped') ''id'' = Some ids'"
      "users_df' = take_rows dropped' (argsort ids')"
      "length targets' = length ids'"
      "sort_values users_test_csv ''id'' = Inr users_test_df'"
    by (rule read_data_from_dropped)
  from d f(1) f'(1) have same: "dropped' = dropped" by simp
  with f(2) f'(2) have ids: "ids' = ids" by simp
  from f(3) f'(3) same ids have u: "users_df' = users_df" by simp
  from f(5) f'(5) have ut: "users_test_df' = users_test_df" by simp
  from en en' u ut have e0: "es0' = es0" "et0' = et0" by simp_all
  from r1 r1' e0 have e1: "es1' = es1" by simp
  from iv iv' e1 show "es' = es" by simp
  from r2 r2' e0 show "es_test' = es_test" by simp
  from f(4) f'(4) ids show "length targets' = length targets" by simp
qed

lemma keyedI:
  "entities es n = Some e \<Longrightarrow> entity_index e = ic \<Longrightarrow> index_labels (entity_df e) = keys
   \<Longrightarrow> cols (entity_df e) = cols df \<Longrightarrow> map_of (cols df) ic = Some keys \<Longrightarrow> distinct keys
   \<Longrightarrow> keyed es n ic keys"
  by (simp add: keyed_def column_values_Inr)


lemma three_keyed:
  assumes s1: "entity_from_dataframe ip (EntitySet name) ''users'' users_df ''id'' False
       = Inr (es1, d1)"
    and s2: "entity_from_dataframe ip es1 ''sessions'' sessions_df ''data_id'' mk = Inr (es2, d2)"
    and s3: "entity_from_dataframe ip es2 ''buckets'' buckets_df ''bucket_id'' False = Inr (es3, d3)"
  obtains ku ks kb where
    "keyed es3 ''users'' ''id'' ku"
    "map_of (cols (with_index users_df ''id'')) ''id'' = Some ku"
    "keyed es3 ''sessions'' ''data_id'' ks"
    "map_of (cols (with_index sessions_df ''data_id'')) ''data_id'' = Some ks"
    "keyed es3 ''buckets'' ''bucket_id'' kb"
    "map_of (cols (with_index buckets_df ''bucket_id'')) ''bucket_id'' = Some kb"
    "relationships es3 = []"
    "d2 = (if ip then with_index sessions_df ''data_id'' else sessions_df)"
    "d3 = (if ip then with_index buckets_df ''bucket_id'' else buckets_df)"
proof -
  from s1 s2 s3 obtain eu ku es ks eb kb where
    f: "entities es3 ''users'' = Some eu" "entity_index eu = ''id''"
    "cols (entity_df eu) = cols (with_index users_df ''id'')"
    "index_labels (entity_df eu) = ku"
    "map_of (cols (with_index users_df ''id'')) ''id'' = Some ku" "distinct ku"
    "entities es3 ''sessions'' = Some es" "entity_index es = ''data_id''"
    "cols (entity_df es) = cols (with_index sessions_df ''data_id'')"
    "index_labels (entity_df es) = ks"
    "map_of (cols (with_index sessions_df ''data_id'')) ''data_id'' = Some ks" "distinct ks"
    "entities es3 ''buckets'' = Some eb" "entity_index eb = ''bucket_id''"
    "cols (entity_df eb) = cols (with_index buckets_df ''bucket_id'')"
    "index_labels (entity_df eb) = kb"
    "map_of (cols (with_index buckets_df ''bucket_id'')) ''bucket_id'' = Some kb" "distinct kb"
    "relationships es3 = []"
    "d2 = (if ip then with_index sessions_df ''data_id'' else sessions_df)"
    "d3 = (if ip then with_index buckets_df ''bucket_id'' else buckets_df)"
    by (rule three_entities)
  have "keyed es3 ''users'' ''id'' ku"
    by (rule keyedI [OF f(1) f(2) f(4) f(3) f(5) f(6)])
  moreover note f(5)
  moreover have "keyed es3 ''sessions'' ''data_id'' ks"
    by (rule keyedI [OF f(7) f(8) f(10) f(9) f(11) f(12)])
  moreover note f(11)
  moreover have "keyed es3 ''buckets'' ''bucket_id'' kb"
    by (rule keyedI [OF f(13) f(14) f(16) f(15) f(17) f(18)])
  moreover note f(17) f(19) f(20) f(21)
  ultimately show thesis by (rule that)
qed


lemma entity_sets_keyed:
  assumes en: "entity_sets ip users_df users_test_df sessions_df buckets_df = Inr (es0, et0)"
  obtains ku ks kb tu tb where
    "keyed es0 ''users'' ''id'' ku"
    "map_of (cols (with_index users_df ''id'')) ''id'' = Some ku"
    "keyed es0 ''sessions'' ''data_id'' ks"
    "map_of (cols (with_index sessions_df ''data_id'')) ''data_id'' = Some ks"
    "keyed es0 ''buckets'' ''bucket_id'' kb"
    "map_of (cols (with_index buckets_df ''bucket_id'')) ''bucket_id'' = Some kb"
    "keyed et0 ''users'' ''id'' tu"
    "map_of (cols (with_index users_test_df ''id'')) ''id'' = Some tu"
    "keyed et0 ''sessions'' ''data_id'' ks"
    "keyed et0 ''buckets'' ''bucket_id'' tb"
    "map_of (cols (with_index buckets_df ''bucket_id'')) ''bucket_id'' = Some tb"
    "relationships es0 = []" "relationships et0 = []"
proof -
  from en obtain a1 d1 a2 d2 d3 b1 e1 b2 e2 e3 where
    s: "entity_from_dataframe ip (EntitySet ''bookings'') ''users'' users_df ''id'' False
       = Inr (a1, d1)"
    "entity_from_dataframe ip a1 ''sessions'' sessions_df ''data_id'' True = Inr (a2, d2)"
    "entity_from_dataframe ip a2 ''buckets'' buckets_df ''bucket_id'' False = Inr (es0, d3)" and
    t: "entity_from_dataframe ip (EntitySet ''bookings_test'') ''users'' users_test_df ''id'' False
       = Inr (b1, e1)"
    "entity_from_dataframe ip b1 ''sessions'' d2 ''data_id'' False = Inr (b2, e2)"
    "entity_from_dataframe ip b2 ''buckets'' d3 ''bucket_id'' False = Inr (et0, e3)"
    by (rule entity_sets_steps)
  from s obtain ku ks kb where
    tr: "keyed es0 ''users'' ''id'' ku"
    "map_of (cols (with_index users_df ''id'')) ''id'' = Some ku"
    "keyed es0 ''sessions'' ''data_id'' ks"
    "map_of (cols (with_index sessions_df ''data_id'')) ''data_id'' = Some ks"
    "keyed es0 ''buckets'' ''bucket_id'' kb"
    "map_of (cols (with_index buckets_df ''bucket_id'')) ''bucket_id'' = Some kb"
    "relationships es0 = []"
    "d2 = (if ip then with_index sessions_df ''data_id'' else sessions_df)"
    "d3 = (if ip then with_index buckets_df ''bucket_id'' else buckets_df)"
    by (rule three_keyed)
  from t obtain tu ts tb where
    te: "keyed et0 ''users'' ''id'' tu"
    "map_of (cols (with_index users_test_df ''id'')) ''id'' = Some tu"
    "keyed et0 ''sessions'' ''data_id'' ts"
    "map_of (cols (with_index d2 ''data_id'')) ''data_id'' = Some ts"
    "keyed et0 ''buckets'' ''bucket_id'' tb"
    "map_of (cols (with_index d3 ''bucket_id'')) ''bucket_id'' = Some tb"
    "relationships et0 = []"
    by (rule three_keyed)
  have "with_index d2 ''data_id'' = with_index sessions_df ''data_id''"
    by (simp add: tr(8) with_index_idem)
  with te(4) tr(4) have "ts = ks" by simp
  with te(3) have ts: "keyed et0 ''sessions'' ''data_id'' ks" by simp
  have "with_index d3 ''bucket_id'' = with_index buckets_df ''bucket_id''"
    by (simp add: tr(9) with_index_idem)
  with te(6) have tb: "map_of (cols (with_index buckets_df ''bucket_id'')) ''bucket_id'' = Some tb"
    by simp
  show thesis
    by (rule that [OF tr(1) tr(2) tr(3) tr(4) tr(5) tr(6) te(1) te(2) ts te(5) tb tr(7) te(7)])
qed



lemma keyed_parent_unique:
  "keyed es n ic keys \<Longrightarrow> parent_entity r = n \<Longrightarrow> parent_variable r = ic \<Longrightarrow> parent_unique es r"
  by (simp add: keyed_def parent_unique_def split: option.splits)

lemma strictly_increasing_range_index: "strictly_increasing (range_index n)"
proof -
  have "sorted_wrt (<) [0..<n]" by simp
  then have "sorted_wrt (\<lambda>i j. cell_rank (Num (of_nat i)) < cell_rank (Num (of_nat j))) [0..<n]"
    by (rule sorted_wrt_mono_rel [rotated]) simp
  then show ?thesis
    by (simp add: strictly_increasing_def range_index_def sorted_wrt_map)
qed

lemma distinct_range_index: "distinct (range_index n)"
  by (simp add: range_index_def distinct_map inj_on_def)





subsection \<open>The submission writer on any input\<close>

text \<open>
  Whatever the raw file and the predictions are, the file written pairs the key at raw
  position \<open>i\<close> with prediction \<open>i\<close> and lists the pairs in key order.
\<close>

lemma length_range_index: "length (range_index n) = n"
  by (simp add: range_index_def)

lemma reindex_range:
  assumes "set ps \<subseteq> {0..<n}" "length vs = n"
  shows "reindex (zip (range_index n) vs) (map ((!) (range_index n)) ps) = map ((!) vs) ps"
proof -
  have "map_of (zip (range_index n) vs) (range_index n ! i) = Some (vs ! i)" if "i \<in> set ps" for i
    using that assms by (intro map_of_zip_nth) (auto simp: length_range_index distinct_range_index)
  then show ?thesis
    by (simp add: reindex_def)
qed

lemma rows_of_two_columns:
  assumes "length ks = n" "length cs = n"
  shows "map (\<lambda>i. [ks ! i, cs ! i]) [0..<n] = map (\<lambda>(k, p). [k, p]) (zip ks cs)"
  using assms by (intro nth_equalityI) simp_all

lemma submission_by_raw_position:
  assumes ids: "column_values raw_test_users ''id'' = Inr ids"
    and plain: "\<not> mixed ids"
    and raw_index: "index_labels raw_test_users = range_index (length ids)"
    and preds: "column_values predictions_df ''predict'' = Inr preds"
    and pred_index: "index_labels predictions_df = range_index (length preds)"
    and len: "length preds = length ids"
  shows "submission raw_test_users predictions_df
         = Inr ([''id'', ''country''],
                map (\<lambda>(k, p). [k, p]) (sort_key (\<lambda>(k, p). cell_rank k) (zip ids preds)))"
proof -
  define n where "n = length ids"
  define order where "order = argsort ids"
  define labels where "labels = map ((!) (range_index n)) order"
  define keys where "keys = map ((!) ids) order"
  define country where "country = map ((!) preds) order"
  have sorted_users: "sort_values raw_test_users ''id'' = Inr (take_rows raw_test_users order)"
    using ids plain by (simp add: sort_values_def column_values_Inr order_def)
  have id_series: "getitem (take_rows raw_test_users order) ''id'' = Inr (zip labels keys)"
    using ids raw_index
    by (simp add: getitem_def column_take_rows column_values_Inr index_labels_take_rows
        labels_def keys_def n_def)
  have lens: "length labels = length order" "length keys = length order"
    "length country = length order" "length order = n"
    by (simp_all add: labels_def keys_def country_def order_def length_argsort n_def)
  define a1 where "a1 = \<lparr>index_name = [], index_labels = labels, cols = [(''id'', keys)]\<rparr>"
  have step1: "setitem_series DataFrame_empty ''id'' (zip labels keys) = Inr a1"
    using lens
    by (cases "labels = []")
      (auto simp: setitem_series_def adopt_index_def DataFrame_empty_def a1_def Let_def)
  have predict: "getitem predictions_df ''predict'' = Inr (zip (range_index n) preds)"
    using preds pred_index len by (simp add: getitem_def column_values_Inr n_def)
  have sub: "set order \<subseteq> {0..<n}"
    by (simp add: order_def set_argsort n_def)
  have re: "reindex (zip (range_index n) preds) labels = country"
    unfolding labels_def country_def using sub len by (intro reindex_range) (simp_all add: n_def)
  have same: "country = preds" if "range_index n = labels"
  proof -
    have "map (\<lambda>i. Num (of_nat i)) order = map ((!) (range_index n)) order"
      using sub by (intro map_cong) (auto simp: range_index_def)
    with that have "map (\<lambda>i. Num (of_nat i)) order = map (\<lambda>i. Num (of_nat i)) [0..<n]"
      by (simp add: labels_def range_index_def)
    then have "order = [0..<n]"
      by (rule map_injective) (simp add: inj_on_def)
    moreover have "map ((!) preds) [0..<length preds] = preds"
      by (rule map_nth)
    ultimately show ?thesis
      using len by (simp add: country_def n_def)
  qed
  define a2 where "a2 = \<lparr>index_name = [], index_labels = labels,
      cols = [(''id'', keys), (''country'', country)]\<rparr>"
  have step2: "setitem_series a1 ''country'' (zip (range_index n) preds) = Inr a2"
  proof -
    have adopt: "adopt_index a1 (range_index n) = a1"
      using lens len
      by (auto simp: adopt_index_def a1_def n_def length_range_index range_index_0)
    have fsts: "map fst (zip (range_index n) preds) = range_index n"
      and snds: "map snd (zip (range_index n) preds) = preds"
      using len by (simp_all add: n_def length_range_index)
    have "setitem_series a1 ''country'' (zip (range_index n) preds)
        = (if range_index n = index_labels a1
           then Inr (a1\<lparr>cols := AList.update ''country'' preds (cols a1)\<rparr>)
           else Inr (a1\<lparr>cols := AList.update ''country''
                       (reindex (zip (range_index n) preds) (index_labels a1)) (cols a1)\<rparr>))"
      unfolding setitem_series_def Let_def fsts snds adopt
      by (simp add: distinct_range_index)
    also have "\<dots> = Inr a2"
      using same re by (auto simp: a1_def a2_def)
    finally show ?thesis .
  qed
  have step3: "set_index a2 ''id'' = Inr \<lparr>index_name = ''id'', index_labels = keys,
      cols = [(''country'', country)]\<rparr>"
    by (simp add: set_index_def a2_def)
  have rows: "to_csv \<lparr>index_name = ''id'', index_labels = keys, cols = [(''country'', country)]\<rparr>
      = ([''id'', ''country''], map (\<lambda>(k, p). [k, p]) (zip keys country))"
    using lens by (simp add: to_csv_def columns_def rows_of_two_columns)
  have "zip keys country = sort_key (\<lambda>(k, p). cell_rank k) (zip ids preds)"
    unfolding keys_def country_def order_def using len by (rule zip_take_argsort)
  with rows have final: "to_csv \<lparr>index_name = ''id'', index_labels = keys,
        cols = [(''country'', country)]\<rparr>
      = ([''id'', ''country''],
         map (\<lambda>(k, p). [k, p]) (sort_key (\<lambda>(k, p). cell_rank k) (zip ids preds)))"
    by simp
  show ?thesis
    by (simp add: submission_def Let_def sorted_users id_series step1 predict step2 step3
        final thenE_Inr_apply)
qed

subsection \<open>Entity sets built by the library calls\<close>










subsection \<open>The small instance\<close>

lemma range_index_1: "range_index 1 = [Num 0]"
  by (simp add: range_index_def)

lemma argsort_u2_u1: "argsort [Str ''u2'', Str ''u1''] = [1, 0]"
  by (simp add: argsort_def upt_conv_Cons)


lemma argsort_single: "argsort [k] = [0]"
  by (simp add: argsort_def)

lemma example_read_data:
  "read_data example_users example_test_users =
     Inr (example_users_df, example_test_users, [Str ''US'', Str ''FR''])"
  by (simp add: read_data_def example_users_def example_test_users_def example_users_df_def
      read_csv_def range_index_1 range_index_2 range_index_0 range_index_Suc
      sort_values_def mixed_def argsort_u2_u1
      argsort_single take_rows_def thenE_def column_values_def drop_column_def columns_def)


lemma example_entity_sets:
  "\<exists>es es_test. entity_sets ip example_users_df example_test_users
       example_sessions example_buckets = Inr (es, es_test)"
  by (cases ip)
    (simp_all add: example_users_df_def example_test_users_def thenE_def
      entity_sets_def entity_from_dataframe_def with_index_def insert_range_column_def
      columns_def column_values_def EntitySet_def
      example_buckets_def example_sessions_def read_csv_def range_index_1 range_index_2
      range_index_0 range_index_Suc Let_def)



lemma sort_two_keys: "sort_key cell_rank [Str ''u1'', Str ''u2''] = [Str ''u1'', Str ''u2'']"
  by simp

lemma example_run:
  "feature_engineering ip by_key example_build example_evaluate
       example_users example_test_users example_buckets example_sessions =
     Inr (\<lparr>index_name = ''id'', index_labels = [Str ''u1'', Str ''u2''],
            cols = [(''COUNT(sessions)'', [Num 2, Num 0]),
                    (''country_destination'', [Str ''US'', Str ''FR''])]\<rparr>,
          \<lparr>index_name = ''id'', index_labels = [Str ''t1''],
            cols = [(''COUNT(sessions)'', [Num 0])]\<rparr>)"
  apply (simp add: feature_engineering_def assemble_def example_read_data thenE_Inr_apply)
  apply (cases ip; cases by_key)
     apply (simp_all add: thenE_def example_users_df_def example_test_users_def
      entity_sets_def entity_from_dataframe_def with_index_def insert_range_column_def
      columns_def column_values_def EntitySet_def declare_relationships_def
      declare_relationship_def variable_def
      Relationship_def set_interesting_values_def dfs_def calculate_feature_matrix_def
      instance_ids_def example_build_def example_evaluate_def
      session_users_def unknown_to_nan_def unknown_to_nan_cell_def
      setitem_array_def adopt_index_def
      example_buckets_def example_sessions_def read_csv_def range_index_1 range_index_2
      range_index_0 range_index_Suc sort_two_keys Let_def)
  done

lemma example_relabelled_read_data:
  "read_data example_relabelled_users example_test_users =
     Inr (example_users_df, example_test_users, [Str ''NDF'', Str ''NDF''])"
  by (simp add: read_data_def example_relabelled_users_def example_test_users_def
      example_users_df_def read_csv_def range_index_1 range_index_2 range_index_0
      range_index_Suc sort_values_def mixed_def argsort_u2_u1
      argsort_single take_rows_def thenE_def column_values_def drop_column_def columns_def)

lemma example_relabelled_run:
  "feature_engineering ip by_key example_build example_evaluate
       example_relabelled_users example_test_users example_buckets example_sessions =
     Inr (\<lparr>index_name = ''id'', index_labels = [Str ''u1'', Str ''u2''],
            cols = [(''COUNT(sessions)'', [Num 2, Num 0]),
                    (''country_destination'', [Str ''NDF'', Str ''NDF''])]\<rparr>,
          \<lparr>index_name = ''id'', index_labels = [Str ''t1''],
            cols = [(''COUNT(sessions)'', [Num 0])]\<rparr>)"
  apply (simp add: feature_engineering_def assemble_def example_relabelled_read_data
      thenE_Inr_apply)
  apply (cases ip; cases by_key)
     apply (simp_all add: thenE_def example_users_df_def example_test_users_def
      entity_sets_def entity_from_dataframe_def with_index_def insert_range_column_def
      columns_def column_values_def EntitySet_def declare_relationships_def
      declare_relationship_def variable_def
      Relationship_def set_interesting_values_def dfs_def calculate_feature_matrix_def
      instance_ids_def example_build_def example_evaluate_def
      session_users_def unknown_to_nan_def unknown_to_nan_cell_def
      setitem_array_def adopt_index_def
      example_buckets_def example_sessions_def read_csv_def range_index_1 range_index_2
      range_index_0 range_index_Suc sort_two_keys Let_def)
  done

lemma example_same_but_labels:
  "index_labels example_relabelled_users = index_labels example_users
   \<and> index_name example_relabelled_users = index_name example_users
   \<and> AList.delete ''country_destination'' (cols example_relabelled_users)
       = AList.delete ''country_destination'' (cols example_users)"
  by (simp add: example_relabelled_users_def example_users_def read_csv_def)

lemma wf_example_users: "wf_frame example_users"
  by (simp add: wf_frame_def example_users_def read_csv_def columns_def range_index_2)

subsection \<open>Labels, parent keys and the surrogate key\<close>

lemma same_but_labels_dropped:
  assumes a1: "assemble ip users_csv users_test_csv buckets_df sessions_df
                 = Inr (es, es_test, targets)"
    and a2: "assemble ip users_csv' users_test_csv buckets_df sessions_df
                 = Inr (es', es_test', targets')"
    and same: "index_labels users_csv' = index_labels users_csv"
      "index_name users_csv' = index_name users_csv"
      "AList.delete ''country_destination'' (cols users_csv')
         = AList.delete ''country_destination'' (cols users_csv)"
  shows "drop_column users_csv' ''country_destination''
           = drop_column users_csv ''country_destination''"
proof -
  from a1 obtain users_df users_test_df where
    "read_data users_csv users_test_csv = Inr (users_df, users_test_df, targets)"
    by (rule assemble_Inr)
  then obtain dropped where d: "drop_column users_csv ''country_destination'' = Inr dropped"
    by (rule read_data_from_dropped)
  from a2 obtain users_df' users_test_df' where
    "read_data users_csv' users_test_csv = Inr (users_df', users_test_df', targets')"
    by (rule assemble_Inr)
  then obtain dropped' where d': "drop_column users_csv' ''country_destination'' = Inr dropped'"
    by (rule read_data_from_dropped)
  from d have "dropped
      = users_csv\<lparr>cols := AList.delete ''country_destination'' (cols users_csv)\<rparr>"
    by (rule drop_column_Inr)
  moreover from d' have "dropped'
      = users_csv'\<lparr>cols := AList.delete ''country_destination'' (cols users_csv')\<rparr>"
    by (rule drop_column_Inr)
  ultimately have "dropped' = dropped" using same
    by (cases users_csv; cases users_csv') simp
  with d d' show ?thesis by simp
qed

lemma instance_ids_sorted:
  "index_labels (entity_df e) = map ((!) ids) (argsort ids)
   \<Longrightarrow> instance_ids by_key e = map ((!) ids) (argsort ids)"
  by (simp add: instance_ids_def sort_sorted_keys)

text \<open>
  Claim C3: the label column is taken off the sorted training users before the entity
  set is built and written back onto the feature matrix after synthesis and
  post-processing. Synthesis is left open: any feature definitions and any evaluation of
  them, with the rows the library returns, one per user of the entity, in the order of
  the entity's frame or in key order. Given a well-formed users table, a run that
  succeeds has unique user keys and its label column pairs every key with that user's
  original label (the series is the original key/label pairs sorted by key). The
  training entity set of the run has a users entity whose columns are those of the
  sorted users table without the label column; the feature matrix is the post-processed
  matrix computed from that entity set with the saved labels stored under the label's
  name. Nothing but the label column depends on the labels: a users table that differs
  in the label column alone gives the same two entity sets, the same rows, the same
  other columns and the same test matrix.
\<close>

theorem targets_reattached:
  assumes run: "feature_engineering ip by_key build_features evaluate
                  users_csv users_test_csv buckets_df sessions_df
                  = Inr (feature_matrix, feature_matrix_test)"
    and wf: "wf_frame users_csv"
    and ids: "column_values users_csv ''id'' = Inr ids"
    and labels: "column_values users_csv ''country_destination'' = Inr labels"
  shows "getitem feature_matrix ''country_destination''
           = Inr (sort_key (\<lambda>(k, c). cell_rank k) (zip ids labels))
         \<and> distinct ids
         \<and> (\<exists>es es_test e fm.
               assemble ip users_csv users_test_csv buckets_df sessions_df
                 = Inr (es, es_test, map ((!) labels) (argsort ids))
               \<and> entities es ''users'' = Some e
               \<and> ''country_destination'' \<notin> set (columns (entity_df e))
               \<and> cols (entity_df e)
                   = AList.delete ''country_destination''
                       (cols (take_rows users_csv (argsort ids)))
               \<and> calculate_feature_matrix by_key evaluate (build_features es) es = Inr fm
               \<and> feature_matrix
                   = (unknown_to_nan fm)
                       \<lparr>cols := AList.update ''country_destination''
                                 (map ((!) labels) (argsort ids)) (cols (unknown_to_nan fm))\<rparr>
               \<and> (\<forall>users_csv' fm' fmt'.
                     index_labels users_csv' = index_labels users_csv
                     \<and> index_name users_csv' = index_name users_csv
                     \<and> AList.delete ''country_destination'' (cols users_csv')
                         = AList.delete ''country_destination'' (cols users_csv)
                     \<and> feature_engineering ip by_key build_features evaluate
                         users_csv' users_test_csv buckets_df sessions_df = Inr (fm', fmt')
                     \<longrightarrow> (\<exists>targets'. assemble ip users_csv' users_test_csv buckets_df sessions_df
                                        = Inr (es, es_test, targets'))
                         \<and> AList.delete ''country_destination'' (cols fm')
                             = AList.delete ''country_destination'' (cols feature_matrix)
                         \<and> index_labels fm' = index_labels feature_matrix
                         \<and> fmt' = feature_matrix_test))"
proof -
  from run obtain es es_test targets fm fmt where
    asm: "assemble ip users_csv users_test_csv buckets_df sessions_df
            = Inr (es, es_test, targets)" and
    cfm: "calculate_feature_matrix by_key evaluate (build_features es) es = Inr fm" and
    cft: "calculate_feature_matrix by_key evaluate (build_features es) es_test = Inr fmt" and
    set: "setitem_array (unknown_to_nan fm) ''country_destination'' targets = Inr feature_matrix" and
    test: "feature_matrix_test = unknown_to_nan fmt"
    by (rule feature_engineering_Inr)
  from asm ids labels obtain e where
    e: "entities es ''users'' = Some e"
      "index_labels (entity_df e) = map ((!) ids) (argsort ids)" and
    d: "distinct ids" and
    t: "targets = map ((!) labels) (argsort ids)" and
    c: "cols (entity_df e)
       = AList.delete ''country_destination'' (cols (take_rows users_csv (argsort ids)))"
    by (rule train_users_entity)
  from cfm e(1) have "index_labels fm = instance_ids by_key e"
    by (auto elim!: calculate_feature_matrix_Inr)
  with e(2) have rows: "index_labels (unknown_to_nan fm) = map ((!) ids) (argsort ids)"
    by (simp add: unknown_to_nan_shape instance_ids_sorted)
  from t have len: "length targets = length (index_labels (unknown_to_nan fm))"
    by (simp add: rows)
  with set have fm: "feature_matrix = (unknown_to_nan fm)
      \<lparr>cols := AList.update ''country_destination'' targets (cols (unknown_to_nan fm))\<rparr>"
    by (simp add: setitem_array_same_length)
  from wf ids labels have "length labels = length ids"
    by (simp add: column_values_Inr wf_frame_column_length)
  then have "zip (map ((!) ids) (argsort ids)) (map ((!) labels) (argsort ids))
      = sort_key (\<lambda>(k, c). cell_rank k) (zip ids labels)"
    by (rule zip_take_argsort)
  then have first: "getitem feature_matrix ''country_destination''
      = Inr (sort_key (\<lambda>(k, c). cell_rank k) (zip ids labels))"
    by (simp add: fm getitem_updated rows t)
  from c have free: "''country_destination'' \<notin> set (columns (entity_df e))"
    by (simp add: columns_def delete_keys)
  have third: "(\<exists>targets'. assemble ip users_csv' users_test_csv buckets_df sessions_df
                                        = Inr (es, es_test, targets'))
                   \<and> AList.delete ''country_destination'' (cols fm')
                     = AList.delete ''country_destination'' (cols feature_matrix)
                   \<and> index_labels fm' = index_labels feature_matrix
                   \<and> fmt' = feature_matrix_test"
    if same: "index_labels users_csv' = index_labels users_csv"
      "index_name users_csv' = index_name users_csv"
      "AList.delete ''country_destination'' (cols users_csv')
         = AList.delete ''country_destination'' (cols users_csv)"
      and run': "feature_engineering ip by_key build_features evaluate
                   users_csv' users_test_csv buckets_df sessions_df = Inr (fm', fmt')"
    for users_csv' fm' fmt'
  proof -
    from run' obtain es' es_test' targets' fm1 fmt1 where
      asm': "assemble ip users_csv' users_test_csv buckets_df sessions_df
            = Inr (es', es_test', targets')" and
      cfm': "calculate_feature_matrix by_key evaluate (build_features es') es' = Inr fm1" and
      cft': "calculate_feature_matrix by_key evaluate (build_features es') es_test' = Inr fmt1" and
      set': "setitem_array (unknown_to_nan fm1) ''country_destination'' targets' = Inr fm'" and
      test': "fmt' = unknown_to_nan fmt1"
      by (rule feature_engineering_Inr)
    from asm asm' same have dr: "drop_column users_csv' ''country_destination''
           = drop_column users_csv ''country_destination''"
      by (rule same_but_labels_dropped)
    from asm asm' dr have eq: "es' = es" "es_test' = es_test"
      and "length targets' = length targets"
      by (rule assemble_same_dropped)+
    from cfm cfm' cft cft' have feq: "fm1 = fm" "fmt1 = fmt" by (simp_all add: eq)
    from \<open>length targets' = length targets\<close> len
    have "length targets' = length (index_labels (unknown_to_nan fm))" by simp
    with set' have fm': "fm' = (unknown_to_nan fm)
      \<lparr>cols := AList.update ''country_destination'' targets' (cols (unknown_to_nan fm))\<rparr>"
      by (simp add: feq setitem_array_same_length)
    from asm' have "\<exists>targets'. assemble ip users_csv' users_test_csv buckets_df sessions_df
                                        = Inr (es, es_test, targets')"
      by (auto simp: eq)
    then show ?thesis
      by (simp add: fm fm' test test' feq delete_update_same)
  qed
  have rest: "\<forall>users_csv' fm' fmt'.
                     index_labels users_csv' = index_labels users_csv
                     \<and> index_name users_csv' = index_name users_csv
                     \<and> AList.delete ''country_destination'' (cols users_csv')
                         = AList.delete ''country_destination'' (cols users_csv)
                     \<and> feature_engineering ip by_key build_features evaluate
                         users_csv' users_test_csv buckets_df sessions_df = Inr (fm', fmt')
                     \<longrightarrow> (\<exists>targets'. assemble ip users_csv' users_test_csv buckets_df sessions_df
                                        = Inr (es, es_test, targets'))
                         \<and> AList.delete ''country_destination'' (cols fm')
                             = AList.delete ''country_destination'' (cols feature_matrix)
                         \<and> index_labels fm' = index_labels feature_matrix
                         \<and> fmt' = feature_matrix_test"
    by (intro allI impI, elim conjE, rule third)
  from asm t have asm_t: "assemble ip users_csv users_test_csv buckets_df sessions_df
                 = Inr (es, es_test, map ((!) labels) (argsort ids))"
    by simp
  from fm t have fm_t: "feature_matrix
                   = (unknown_to_nan fm)
                       \<lparr>cols := AList.update ''country_destination''
                                 (map ((!) labels) (argsort ids)) (cols (unknown_to_nan fm))\<rparr>"
    by simp
  show ?thesis
    apply (rule conjI [OF first])
    apply (rule conjI [OF d])
    apply (rule exI [of _ es])
    apply (rule exI [of _ es_test])
    apply (rule exI [of _ e])
    apply (rule exI [of _ fm])
    apply (rule conjI [OF asm_t])
    apply (rule conjI [OF e(1)])
    apply (rule conjI [OF free])
    apply (rule conjI [OF c])
    apply (rule conjI [OF cfm])
    apply (rule conjI [OF fm_t])
    apply (rule rest)
    done
qed

theorem targets_reattached_witness:
  "wf_frame example_users
   \<and> feature_engineering True False example_build example_evaluate
        example_users example_test_users example_buckets example_sessions =
      Inr (\<lparr>index_name = ''id'', index_labels = [Str ''u1'', Str ''u2''],
             cols = [(''COUNT(sessions)'', [Num 2, Num 0]),
                     (''country_destination'', [Str ''US'', Str ''FR''])]\<rparr>,
           \<lparr>index_name = ''id'', index_labels = [Str ''t1''],
             cols = [(''COUNT(sessions)'', [Num 0])]\<rparr>)
   \<and> getitem \<lparr>index_name = ''id'', index_labels = [Str ''u1'', Str ''u2''],
             cols = [(''COUNT(sessions)'', [Num 2, Num 0]),
                     (''country_destination'', [Str ''US'', Str ''FR''])]\<rparr>
        ''country_destination''
      = Inr (sort_key (\<lambda>(k, c). cell_rank k)
               (zip [Str ''u2'', Str ''u1''] [Str ''FR'', Str ''US'']))
   \<and> (\<exists>es es_test e.
         assemble True example_users example_test_users example_buckets example_sessions
           = Inr (es, es_test, [Str ''US'', Str ''FR''])
         \<and> entities es ''users'' = Some e
         \<and> ''country_destination'' \<notin> set (columns (entity_df e))
         \<and> cols (entity_df e)
             = [(''id'', [Str ''u1'', Str ''u2'']),
                (''age_gender_bucket'', [Str ''b1'', Str ''b1''])]
         \<and> (\<exists>targets'. assemble True example_relabelled_users example_test_users
                example_buckets example_sessions = Inr (es, es_test, targets')))
   \<and> AList.delete ''country_destination''
        [(''COUNT(sessions)'', [Num 2, Num 0]),
         (''country_destination'', [Str ''NDF'', Str ''NDF''])]
      = AList.delete ''country_destination''
          [(''COUNT(sessions)'', [Num 2, Num 0]),
           (''country_destination'', [Str ''US'', Str ''FR''])]"
proof -
  define fm_us where "fm_us =
    \<lparr>index_name = ''id'', index_labels = [Str ''u1'', Str ''u2''],
      cols = [(''COUNT(sessions)'', [Num 2, Num 0]),
              (''country_destination'', [Str ''US'', Str ''FR''])]\<rparr>"
  define fm_ndf where "fm_ndf =
    \<lparr>index_name = ''id'', index_labels = [Str ''u1'', Str ''u2''],
      cols = [(''COUNT(sessions)'', [Num 2, Num 0]),
              (''country_destination'', [Str ''NDF'', Str ''NDF''])]\<rparr>"
  define fm_test where "fm_test =
    \<lparr>index_name = ''id'', index_labels = [Str ''t1''],
      cols = [(''COUNT(sessions)'', [Num 0])]\<rparr>"
  have ids: "column_values example_users ''id'' = Inr [Str ''u2'', Str ''u1'']"
    by (simp add: column_values_def example_users_def read_csv_def)
  have labels: "column_values example_users ''country_destination''
      = Inr [Str ''FR'', Str ''US'']"
    by (simp add: column_values_def example_users_def read_csv_def)
  have run: "feature_engineering True False example_build example_evaluate
        example_users example_test_users example_buckets example_sessions
      = Inr (fm_us, fm_test)"
    unfolding fm_us_def fm_test_def by (rule example_run)
  have run': "feature_engineering True False example_build example_evaluate
        example_relabelled_users example_test_users example_buckets example_sessions
      = Inr (fm_ndf, fm_test)"
    unfolding fm_ndf_def fm_test_def by (rule example_relabelled_run)
  have sorted_labels: "map ((!) [Str ''FR'', Str ''US'']) (argsort [Str ''u2'', Str ''u1''])
      = [Str ''US'', Str ''FR'']"
    by (simp add: argsort_u2_u1)
  have sorted_users: "AList.delete ''country_destination''
       (cols (take_rows example_users (argsort [Str ''u2'', Str ''u1''])))
      = [(''id'', [Str ''u1'', Str ''u2'']),
         (''age_gender_bucket'', [Str ''b1'', Str ''b1''])]"
    by (simp add: argsort_u2_u1 take_rows_def example_users_def read_csv_def)
  note t = targets_reattached [OF run wf_example_users ids labels]
  from t have first: "getitem fm_us ''country_destination''
      = Inr (sort_key (\<lambda>(k, c). cell_rank k)
               (zip [Str ''u2'', Str ''u1''] [Str ''FR'', Str ''US'']))"
    by (rule conjunct1)
  from t obtain es es_test e where
    a: "assemble True example_users example_test_users example_buckets example_sessions
           = Inr (es, es_test,
                  map ((!) [Str ''FR'', Str ''US'']) (argsort [Str ''u2'', Str ''u1'']))" and
    e: "entities es ''users'' = Some e"
       "''country_destination'' \<notin> set (columns (entity_df e))"
       "cols (entity_df e) = AList.delete ''country_destination''
          (cols (take_rows example_users (argsort [Str ''u2'', Str ''u1''])))" and
    r: "\<forall>users_csv' fm' fmt'.
          index_labels users_csv' = index_labels example_users
          \<and> index_name users_csv' = index_name example_users
          \<and> AList.delete ''country_destination'' (cols users_csv')
              = AList.delete ''country_destination'' (cols example_users)
          \<and> feature_engineering True False example_build example_evaluate
              users_csv' example_test_users example_buckets example_sessions = Inr (fm', fmt')
          \<longrightarrow> (\<exists>targets'. assemble True users_csv' example_test_users example_buckets
                   example_sessions = Inr (es, es_test, targets'))
              \<and> AList.delete ''country_destination'' (cols fm')
                  = AList.delete ''country_destination'' (cols fm_us)
              \<and> index_labels fm' = index_labels fm_us
              \<and> fmt' = fm_test"
    by (elim conjE exE)
  from r example_same_but_labels run' have
    other: "(\<exists>targets'. assemble True example_relabelled_users example_test_users
               example_buckets example_sessions = Inr (es, es_test, targets'))
       \<and> AList.delete ''country_destination'' (cols fm_ndf)
           = AList.delete ''country_destination'' (cols fm_us)
       \<and> index_labels fm_ndf = index_labels fm_us
       \<and> fm_test = fm_test"
    by (elim allE [of _ example_relabelled_users] allE [of _ fm_ndf] allE [of _ fm_test])
      (simp only: simp_thms)
  from a have a': "assemble True example_users example_test_users example_buckets
      example_sessions = Inr (es, es_test, [Str ''US'', Str ''FR''])"
    by (simp only: sorted_labels)
  from e(3) have c: "cols (entity_df e)
      = [(''id'', [Str ''u1'', Str ''u2'']),
         (''age_gender_bucket'', [Str ''b1'', Str ''b1''])]"
    by (simp only: sorted_users)
  from other have second: "AList.delete ''country_destination''
        [(''COUNT(sessions)'', [Num 2, Num 0]),
         (''country_destination'', [Str ''NDF'', Str ''NDF''])]
      = AList.delete ''country_destination''
          [(''COUNT(sessions)'', [Num 2, Num 0]),
           (''country_destination'', [Str ''US'', Str ''FR''])]"
    unfolding fm_ndf_def fm_us_def by (simp only: frame.simps)
  from a' e(1) e(2) c other have third: "\<exists>es es_test e.
         assemble True example_users example_test_users example_buckets example_sessions
           = Inr (es, es_test, [Str ''US'', Str ''FR''])
         \<and> entities es ''users'' = Some e
         \<and> ''country_destination'' \<notin> set (columns (entity_df e))
         \<and> cols (entity_df e)
             = [(''id'', [Str ''u1'', Str ''u2'']),
                (''age_gender_bucket'', [Str ''b1'', Str ''b1''])]
         \<and> (\<exists>targets'. assemble True example_relabelled_users example_test_users
                example_buckets example_sessions = Inr (es, es_test, targets'))"
    by blast
  from wf_example_users run first third second show ?thesis
    unfolding fm_us_def fm_test_def by (intro conjI)
qed



text \<open>
  Claim C8: the sessions table comes without a key column. Once both entity sets are
  built, the sessions entity of the training set and that of the test set are each
  indexed by a column \<open>data_id\<close> that holds the row positions 0, 1, ..., n - 1, strictly
  increasing and unique, and no relationship has been declared yet. This holds whether
  or not the library inserts the new column into the caller's frame.
\<close>

theorem sessions_surrogate_key:
  assumes en: "entity_sets ip users_df users_test_df sessions_df buckets_df = Inr (es, es_test)"
    and fresh: "''data_id'' \<notin> set (columns sessions_df)"
  shows "keyed es ''sessions'' ''data_id'' (range_index (len sessions_df))
         \<and> keyed es_test ''sessions'' ''data_id'' (range_index (len sessions_df))
         \<and> strictly_increasing (range_index (len sessions_df))
         \<and> relationships es = [] \<and> relationships es_test = []"
proof -
  from en obtain ks where
    k: "keyed es ''sessions'' ''data_id'' ks"
    "map_of (cols (with_index sessions_df ''data_id'')) ''data_id'' = Some ks"
    "keyed es_test ''sessions'' ''data_id'' ks"
    "relationships es = []" "relationships es_test = []"
    by (rule entity_sets_keyed)
  from fresh k(2) have "ks = range_index (len sessions_df)"
    by (simp add: with_index_absent len_def)
  with k strictly_increasing_range_index show ?thesis by simp
qed

theorem sessions_surrogate_key_witness:
  "''data_id'' \<notin> set (columns example_sessions)
   \<and> (\<exists>es es_test. entity_sets True example_users_df example_test_users
          example_sessions example_buckets = Inr (es, es_test)
        \<and> keyed es ''sessions'' ''data_id'' [Num 0, Num 1]
        \<and> keyed es_test ''sessions'' ''data_id'' [Num 0, Num 1])"
proof -
  have fresh: "''data_id'' \<notin> set (columns example_sessions)"
    by (simp add: example_sessions_def read_csv_def columns_def)
  have n: "range_index (len example_sessions) = [Num 0, Num 1]"
    by (simp add: len_def example_sessions_def read_csv_def range_index_2 range_index_0
        range_index_Suc)
  from example_entity_sets obtain es es_test where
    en: "entity_sets True example_users_df example_test_users
          example_sessions example_buckets = Inr (es, es_test)" by blast
  from sessions_surrogate_key [OF en fresh] n en fresh show ?thesis
    by auto
qed

end
